theory Spec2Isabelle
  imports Main "HOL-Library.Word"
begin

section \<open>Solidity values, reverts and checked arithmetic\<close>

text \<open>
  The contracts are compiled with Solidity 0.8.20: an \<open>address\<close> is a 160-bit value, a
  \<open>uint256\<close> is a natural number below \<open>2 ^ 256\<close>, and \<open>+\<close>, \<open>*\<close>, \<open>-\<close>, \<open>/\<close>
  and \<open>++\<close> revert with a panic instead of wrapping around. A failed \<open>require\<close> or a
  \<open>revert\<close> aborts the whole transaction with its message and leaves every storage
  untouched: a call that fails returns \<open>Inl\<close> and no new state.
\<close>

type_synonym address = "160 word"

datatype error = Revert string | Panic

definition MAX_UINT256 :: nat where
  "MAX_UINT256 = 2 ^ 256 - 1"

definition checked_add :: "nat \<Rightarrow> nat \<Rightarrow> error + nat" where
  "checked_add a b = (if a + b \<le> MAX_UINT256 then Inr (a + b) else Inl Panic)"

definition checked_sub :: "nat \<Rightarrow> nat \<Rightarrow> error + nat" where
  "checked_sub a b = (if b \<le> a then Inr (a - b) else Inl Panic)"

definition checked_mul :: "nat \<Rightarrow> nat \<Rightarrow> error + nat" where
  "checked_mul a b = (if a * b \<le> MAX_UINT256 then Inr (a * b) else Inl Panic)"

definition checked_div :: "nat \<Rightarrow> nat \<Rightarrow> error + nat" where
  "checked_div a b = (if b = 0 then Inl Panic else Inr (a div b))"

definition require :: "bool \<Rightarrow> string \<Rightarrow> error + unit" where
  "require c msg = (if c then Inr () else Inl (Revert msg))"

definition and_then :: "error + 'a \<Rightarrow> ('a \<Rightarrow> error + 'b) \<Rightarrow> error + 'b" where
  "and_then r f = (case r of Inl e \<Rightarrow> Inl e | Inr x \<Rightarrow> f x)"

text \<open>What a call sees of its transaction: \<open>msg.sender\<close> and \<open>block.timestamp\<close>.\<close>

record env =
  msg_sender :: address
  block_timestamp :: nat

section \<open>BlacklistRegistry\<close>

datatype EntryType = URL | Address

record BlacklistEntry =
  entryType :: EntryType
  timestamp :: nat
  entry_proposer :: address
  exists_flag :: bool

text \<open>The value a Solidity mapping holds for a key never written, and after \<open>delete\<close>.\<close>

definition zero_BlacklistEntry :: BlacklistEntry where
  "zero_BlacklistEntry =
     \<lparr>entryType = URL, timestamp = 0, entry_proposer = 0, exists_flag = False\<rparr>"

record BlacklistRegistry =
  blacklistedURLs :: "string \<Rightarrow> BlacklistEntry"
  blacklistedAddresses :: "address \<Rightarrow> BlacklistEntry"
  proposalVotingContract :: address
  registry_owner :: address

text \<open>The enums of the voting contract, which its events carry.\<close>

datatype ProposalType = AddURL | AddAddress | RemoveURL | RemoveAddress

datatype ProposalStatus = Active | Approved | Rejected | Executed

text \<open>The events of both contracts, in the order of their parameters.\<close>

datatype event =
    EntryAdded EntryType string address nat address
  | EntryRemoved EntryType string address nat address
  | ProposalCreated nat ProposalType string address string address nat nat
  | VoteCast nat address bool nat nat
  | ProposalStatusUpdated nat ProposalStatus ProposalStatus
  | ProposalExecuted nat ProposalType string address address
  | VotingParametersUpdated nat nat nat
  | OwnershipTransferred address address
  | MinProposerTokenHoldingsUpdated nat nat

definition onlyProposalVotingContract :: "env \<Rightarrow> BlacklistRegistry \<Rightarrow> error + unit" where
  "onlyProposalVotingContract e r =
     require (msg_sender e = proposalVotingContract r)
       ''Only ProposalVoting contract can call this function''"

definition addURL ::
  "env \<Rightarrow> string \<Rightarrow> address \<Rightarrow> BlacklistRegistry \<Rightarrow> error + (event list \<times> BlacklistRegistry)" where
  "addURL e url prop r =
     and_then (onlyProposalVotingContract e r) (\<lambda>_.
     and_then (require (length url > 0) ''URL cannot be empty'') (\<lambda>_.
     and_then (require (\<not> exists_flag (blacklistedURLs r url)) ''URL is already blacklisted'') (\<lambda>_.
     and_then (require (prop \<noteq> 0) ''Proposer address cannot be zero'') (\<lambda>_.
       Inr ([EntryAdded URL url 0 (block_timestamp e) prop],
            r\<lparr>blacklistedURLs := (blacklistedURLs r)(url :=
                 \<lparr>entryType = URL, timestamp = block_timestamp e,
                  entry_proposer = prop, exists_flag = True\<rparr>)\<rparr>)))))"

definition addAddress ::
  "env \<Rightarrow> address \<Rightarrow> address \<Rightarrow> BlacklistRegistry \<Rightarrow> error + (event list \<times> BlacklistRegistry)" where
  "addAddress e a prop r =
     and_then (onlyProposalVotingContract e r) (\<lambda>_.
     and_then (require (a \<noteq> 0) ''Address cannot be zero'') (\<lambda>_.
     and_then (require (\<not> exists_flag (blacklistedAddresses r a)) ''Address is already blacklisted'') (\<lambda>_.
     and_then (require (prop \<noteq> 0) ''Proposer address cannot be zero'') (\<lambda>_.
       Inr ([EntryAdded Address [] a (block_timestamp e) prop],
            r\<lparr>blacklistedAddresses := (blacklistedAddresses r)(a :=
                 \<lparr>entryType = Address, timestamp = block_timestamp e,
                  entry_proposer = prop, exists_flag = True\<rparr>)\<rparr>)))))"

definition removeURL ::
  "env \<Rightarrow> string \<Rightarrow> address \<Rightarrow> BlacklistRegistry \<Rightarrow> error + (event list \<times> BlacklistRegistry)" where
  "removeURL e url remover r =
     and_then (onlyProposalVotingContract e r) (\<lambda>_.
     and_then (require (length url > 0) ''URL cannot be empty'') (\<lambda>_.
     and_then (require (exists_flag (blacklistedURLs r url)) ''URL is not blacklisted'') (\<lambda>_.
     and_then (require (remover \<noteq> 0) ''Remover address cannot be zero'') (\<lambda>_.
       Inr ([EntryRemoved URL url 0 (block_timestamp e) remover],
            r\<lparr>blacklistedURLs := (blacklistedURLs r)(url := zero_BlacklistEntry)\<rparr>)))))"

definition removeAddress ::
  "env \<Rightarrow> address \<Rightarrow> address \<Rightarrow> BlacklistRegistry \<Rightarrow> error + (event list \<times> BlacklistRegistry)" where
  "removeAddress e a remover r =
     and_then (onlyProposalVotingContract e r) (\<lambda>_.
     and_then (require (a \<noteq> 0) ''Address cannot be zero'') (\<lambda>_.
     and_then (require (exists_flag (blacklistedAddresses r a)) ''Address is not blacklisted'') (\<lambda>_.
     and_then (require (remover \<noteq> 0) ''Remover address cannot be zero'') (\<lambda>_.
       Inr ([EntryRemoved Address [] a (block_timestamp e) remover],
            r\<lparr>blacklistedAddresses := (blacklistedAddresses r)(a := zero_BlacklistEntry)\<rparr>)))))"

definition isURLBlacklisted :: "BlacklistRegistry \<Rightarrow> string \<Rightarrow> bool" where
  "isURLBlacklisted r url = exists_flag (blacklistedURLs r url)"

definition isAddressBlacklisted :: "BlacklistRegistry \<Rightarrow> address \<Rightarrow> bool" where
  "isAddressBlacklisted r a = exists_flag (blacklistedAddresses r a)"

text \<open>
  The batch checks: \<open>results\<close> is allocated with one \<open>false\<close> per input, and the loop
  \<open>for (i = 0; i < length; i++)\<close> writes \<open>results[i]\<close>; its \<open>i++\<close> is a checked
  increment like every other.
\<close>

function batchCheckURLs_loop ::
  "BlacklistRegistry \<Rightarrow> string list \<Rightarrow> nat \<Rightarrow> bool list \<Rightarrow> error + bool list" where
  "batchCheckURLs_loop r urls i results =
     (if i < length urls then
        (case checked_add i 1 of
           Inl err \<Rightarrow> Inl err
         | Inr j \<Rightarrow> batchCheckURLs_loop r urls j
                     (results[i := exists_flag (blacklistedURLs r (urls ! i))]))
      else Inr results)"
  by pat_completeness auto
termination
  by (relation "measure (\<lambda>(r, urls, i, results). length urls - i)")
     (auto simp: checked_add_def split: if_splits)

definition batchCheckURLs :: "BlacklistRegistry \<Rightarrow> string list \<Rightarrow> error + bool list" where
  "batchCheckURLs r urls = batchCheckURLs_loop r urls 0 (replicate (length urls) False)"

function batchCheckAddresses_loop ::
  "BlacklistRegistry \<Rightarrow> address list \<Rightarrow> nat \<Rightarrow> bool list \<Rightarrow> error + bool list" where
  "batchCheckAddresses_loop r addrs i results =
     (if i < length addrs then
        (case checked_add i 1 of
           Inl err \<Rightarrow> Inl err
         | Inr j \<Rightarrow> batchCheckAddresses_loop r addrs j
                     (results[i := exists_flag (blacklistedAddresses r (addrs ! i))]))
      else Inr results)"
  by pat_completeness auto
termination
  by (relation "measure (\<lambda>(r, addrs, i, results). length addrs - i)")
     (auto simp: checked_add_def split: if_splits)

definition batchCheckAddresses :: "BlacklistRegistry \<Rightarrow> address list \<Rightarrow> error + bool list" where
  "batchCheckAddresses r addrs =
     batchCheckAddresses_loop r addrs 0 (replicate (length addrs) False)"

section \<open>ProposalVoting\<close>

record Proposal =
  proposal_id :: nat
  proposalType :: ProposalType
  urlValue :: string
  addressValue :: address
  description :: string
  creationTimestamp :: nat
  votingPeriodEnd :: nat
  proposer :: address
  yesVotes :: nat
  noVotes :: nat
  status :: ProposalStatus
  hasVoted :: "address \<Rightarrow> bool"
  totalVoters :: nat

text \<open>The slot of \<open>proposals\<close> that no call has written: every field is zero.\<close>

definition zero_Proposal :: Proposal where
  "zero_Proposal =
     \<lparr>proposal_id = 0, proposalType = AddURL, urlValue = [], addressValue = 0,
      description = [], creationTimestamp = 0, votingPeriodEnd = 0, proposer = 0,
      yesVotes = 0, noVotes = 0, status = Active, hasVoted = (\<lambda>_. False),
      totalVoters = 0\<rparr>"

text \<open>
  The storage of the contract. \<open>this_address\<close> is the contract's own address, the
  \<open>msg.sender\<close> that the registry sees when the contract calls it.
\<close>

record ProposalVoting =
  proposals :: "nat \<Rightarrow> Proposal"
  nextProposalId :: nat
  minVotingPeriod :: nat
  minVotesForApproval :: nat
  approvalMajorityPercentage :: nat
  minProposerTokenHoldings :: nat
  owner :: address
  this_address :: address

text \<open>
  The three contracts of a deployment: the voting contract, the registry it calls, and
  the balances of the governance token, which \<open>createProposal\<close> reads through
  \<open>balanceOf\<close>.
\<close>

record world =
  pv :: ProposalVoting
  registry :: BlacklistRegistry
  balanceOf :: "address \<Rightarrow> nat"

definition constructor ::
  "env \<Rightarrow> address \<Rightarrow> address \<Rightarrow> address \<Rightarrow> nat \<Rightarrow> nat \<Rightarrow> nat \<Rightarrow> nat \<Rightarrow> error + ProposalVoting" where
  "constructor e self blacklistRegistryAddress governanceTokenAddress
       minVotingPeriod' minVotesForApproval' approvalMajorityPercentage'
       minProposerTokenHoldings' =
     and_then (require (blacklistRegistryAddress \<noteq> 0)
                 ''BlacklistRegistry address cannot be zero'') (\<lambda>_.
     and_then (require (governanceTokenAddress \<noteq> 0)
                 ''GovernanceToken address cannot be zero'') (\<lambda>_.
     and_then (require (minVotingPeriod' > 0)
                 ''Min voting period must be greater than zero'') (\<lambda>_.
     and_then (require (approvalMajorityPercentage' > 0 \<and> approvalMajorityPercentage' \<le> 100)
                 ''Approval majority percentage must be between 1 and 100'') (\<lambda>_.
       Inr \<lparr>proposals = (\<lambda>_. zero_Proposal), nextProposalId = 1,
            minVotingPeriod = minVotingPeriod',
            minVotesForApproval = minVotesForApproval',
            approvalMajorityPercentage = approvalMajorityPercentage',
            minProposerTokenHoldings = minProposerTokenHoldings',
            owner = msg_sender e, this_address = self\<rparr>))))"

definition onlyOwner :: "env \<Rightarrow> world \<Rightarrow> error + unit" where
  "onlyOwner e w = require (msg_sender e = owner (pv w)) ''Only owner can call this function''"

definition proposalExists :: "nat \<Rightarrow> world \<Rightarrow> error + unit" where
  "proposalExists pid w =
     require (pid > 0 \<and> pid < nextProposalId (pv w)) ''Proposal does not exist''"

definition proposalActive :: "env \<Rightarrow> nat \<Rightarrow> world \<Rightarrow> error + unit" where
  "proposalActive e pid w =
     and_then (require (status (proposals (pv w) pid) = Active) ''Proposal is not active'') (\<lambda>_.
       require (block_timestamp e < votingPeriodEnd (proposals (pv w) pid))
         ''Voting period has ended'')"

definition proposalReadyToResolve :: "env \<Rightarrow> nat \<Rightarrow> world \<Rightarrow> error + unit" where
  "proposalReadyToResolve e pid w =
     and_then (require (status (proposals (pv w) pid) = Active)
                 ''Proposal not in active state for resolution'') (\<lambda>_.
       require (block_timestamp e \<ge> votingPeriodEnd (proposals (pv w) pid))
         ''Voting period has not ended yet'')"

definition set_proposal :: "nat \<Rightarrow> Proposal \<Rightarrow> world \<Rightarrow> world" where
  "set_proposal pid p w = w\<lparr>pv := (pv w)\<lparr>proposals := (proposals (pv w))(pid := p)\<rparr>\<rparr>"

definition createProposal ::
  "env \<Rightarrow> ProposalType \<Rightarrow> string \<Rightarrow> address \<Rightarrow> string \<Rightarrow> nat \<Rightarrow> world
     \<Rightarrow> error + (nat \<times> event list \<times> world)" where
  "createProposal e type' url addr descr userDefinedVotingDurationInSeconds w =
     and_then (require (length descr > 0) ''Description cannot be empty'') (\<lambda>_.
     and_then (require (userDefinedVotingDurationInSeconds > 0)
                 ''Voting duration must be greater than zero'') (\<lambda>_.
     and_then (if type' = AddURL \<or> type' = AddAddress
               then require (balanceOf w (msg_sender e) \<ge> minProposerTokenHoldings (pv w))
                      ''Insufficient APGT to create Add proposal''
               else Inr ()) (\<lambda>_.
     and_then (if type' = RemoveURL \<or> type' = RemoveAddress
               then require (msg_sender e = owner (pv w))
                      ''Only owner can create Remove proposals''
               else Inr ()) (\<lambda>_.
     let proposalId = nextProposalId (pv w) in
     and_then (checked_add (nextProposalId (pv w)) 1) (\<lambda>next_id.
     let actualVotingDuration =
           (if userDefinedVotingDurationInSeconds < minVotingPeriod (pv w)
            then minVotingPeriod (pv w) else userDefinedVotingDurationInSeconds) in
     and_then (checked_add (block_timestamp e) actualVotingDuration) (\<lambda>votingEnd.
     and_then (if type' = AddURL \<or> type' = RemoveURL then
                 and_then (require (length url > 0)
                             ''URL cannot be empty for URL-related proposal'') (\<lambda>_.
                   require (addr = 0) ''Address must be zero for URL-related proposal'')
               else if type' = AddAddress \<or> type' = RemoveAddress then
                 and_then (require (addr \<noteq> 0)
                             ''Address cannot be zero for Address-related proposal'') (\<lambda>_.
                   require (length url = 0) ''URL must be empty for Address-related proposal'')
               else Inl (Revert ''Invalid proposal type'')) (\<lambda>_.
     let newProposal = (proposals (pv w) proposalId)
           \<lparr>proposal_id := proposalId, proposalType := type', urlValue := url,
            addressValue := addr, description := descr,
            creationTimestamp := block_timestamp e, votingPeriodEnd := votingEnd,
            proposer := msg_sender e, yesVotes := 0, noVotes := 0, status := Active,
            totalVoters := 0\<rparr> in
       Inr (proposalId,
            [ProposalCreated proposalId type' url addr descr (msg_sender e)
               (block_timestamp e) votingEnd],
            w\<lparr>pv := (pv w)\<lparr>proposals := (proposals (pv w))(proposalId := newProposal),
                              nextProposalId := next_id\<rparr>\<rparr>))))))))"

definition vote :: "env \<Rightarrow> nat \<Rightarrow> bool \<Rightarrow> world \<Rightarrow> error + (event list \<times> world)" where
  "vote e pid support w =
     and_then (proposalExists pid w) (\<lambda>_.
     and_then (proposalActive e pid w) (\<lambda>_.
     let proposal = proposals (pv w) pid in
     and_then (require (\<not> hasVoted proposal (msg_sender e))
                 ''Already voted on this proposal'') (\<lambda>_.
     and_then (checked_add (totalVoters proposal) 1) (\<lambda>voters.
     and_then (if support
               then and_then (checked_add (yesVotes proposal) 1)
                      (\<lambda>y. Inr (proposal\<lparr>yesVotes := y\<rparr>))
               else and_then (checked_add (noVotes proposal) 1)
                      (\<lambda>n. Inr (proposal\<lparr>noVotes := n\<rparr>))) (\<lambda>counted.
     let proposal' = counted\<lparr>hasVoted := (hasVoted proposal)(msg_sender e := True),
                             totalVoters := voters\<rparr> in
       Inr ([VoteCast pid (msg_sender e) support (yesVotes proposal') (noVotes proposal')],
            set_proposal pid proposal' w))))))"

definition meetsApprovalCriteria :: "Proposal \<Rightarrow> ProposalVoting \<Rightarrow> error + bool" where
  "meetsApprovalCriteria proposal c =
     (if yesVotes proposal \<ge> minVotesForApproval c \<and> totalVoters proposal > 0 then
        and_then (checked_mul (yesVotes proposal) 100) (\<lambda>scaled.
        and_then (checked_div scaled (totalVoters proposal)) (\<lambda>actualMajorityPercentage.
          Inr (actualMajorityPercentage \<ge> approvalMajorityPercentage c)))
      else Inr False)"

definition endProposalAndExecute :: "env \<Rightarrow> nat \<Rightarrow> world \<Rightarrow> error + (event list \<times> world)" where
  "endProposalAndExecute e pid w =
     and_then (proposalExists pid w) (\<lambda>_.
     and_then (proposalReadyToResolve e pid w) (\<lambda>_.
     let proposal = proposals (pv w) pid;
         oldStatus = status proposal in
     and_then (meetsApprovalCriteria proposal (pv w)) (\<lambda>meets.
     let newStatus = (if meets then Approved else Rejected) in
       Inr ([ProposalStatusUpdated pid oldStatus newStatus],
            set_proposal pid (proposal\<lparr>status := newStatus\<rparr>) w))))"

text \<open>
  The call into the registry made by \<open>executeApprovedProposal\<close>: the registry sees
  the voting contract as \<open>msg.sender\<close>, in the same block.
\<close>

definition registry_action ::
  "env \<Rightarrow> Proposal \<Rightarrow> world \<Rightarrow> error + (event list \<times> BlacklistRegistry)" where
  "registry_action e proposal w =
     (let call_env = \<lparr>msg_sender = this_address (pv w), block_timestamp = block_timestamp e\<rparr> in
      if proposalType proposal = AddURL then
        addURL call_env (urlValue proposal) (proposer proposal) (registry w)
      else if proposalType proposal = AddAddress then
        addAddress call_env (addressValue proposal) (proposer proposal) (registry w)
      else if proposalType proposal = RemoveURL then
        removeURL call_env (urlValue proposal) (proposer proposal) (registry w)
      else if proposalType proposal = RemoveAddress then
        removeAddress call_env (addressValue proposal) (proposer proposal) (registry w)
      else Inr ([], registry w))"

definition executeApprovedProposal ::
  "env \<Rightarrow> nat \<Rightarrow> world \<Rightarrow> error + (event list \<times> world)" where
  "executeApprovedProposal e pid w =
     and_then (onlyOwner e w) (\<lambda>_.
     and_then (proposalExists pid w) (\<lambda>_.
     let proposal = proposals (pv w) pid in
     and_then (require (status proposal = Approved)
                 ''Proposal is not in Approved state for execution'') (\<lambda>_.
     let oldStatus = status proposal in
     and_then (registry_action e proposal w) (\<lambda>(registry_events, registry').
       Inr (registry_events @
            [ProposalExecuted pid (proposalType proposal)
               (urlValue proposal) (addressValue proposal) (msg_sender e),
             ProposalStatusUpdated pid oldStatus Executed],
            set_proposal pid (proposal\<lparr>status := Executed\<rparr>)
              (w\<lparr>registry := registry'\<rparr>))))))"

definition willProposalPass :: "nat \<Rightarrow> world \<Rightarrow> error + bool" where
  "willProposalPass pid w =
     and_then (proposalExists pid w) (\<lambda>_.
     let proposal = proposals (pv w) pid in
     if yesVotes proposal < minVotesForApproval (pv w) \<or> totalVoters proposal = 0 then Inr False
     else
       and_then (checked_mul (yesVotes proposal) 100) (\<lambda>scaled.
       and_then (checked_div scaled (totalVoters proposal)) (\<lambda>actualMajorityPercentage.
         Inr (actualMajorityPercentage \<ge> approvalMajorityPercentage (pv w)))))"

definition getTotalProposalCount :: "world \<Rightarrow> error + nat" where
  "getTotalProposalCount w = checked_sub (nextProposalId (pv w)) 1"

definition updateVotingParameters ::
  "env \<Rightarrow> nat \<Rightarrow> nat \<Rightarrow> nat \<Rightarrow> world \<Rightarrow> error + (event list \<times> world)" where
  "updateVotingParameters e newMinVotingPeriod newMinVotesForApproval
       newApprovalMajorityPercentage w =
     and_then (onlyOwner e w) (\<lambda>_.
     and_then (require (newMinVotingPeriod > 0)
                 ''Min voting period must be greater than zero'') (\<lambda>_.
     and_then (require (newApprovalMajorityPercentage > 0 \<and> newApprovalMajorityPercentage \<le> 100)
                 ''Approval majority percentage must be between 1 and 100'') (\<lambda>_.
       Inr ([VotingParametersUpdated newMinVotingPeriod newMinVotesForApproval
               newApprovalMajorityPercentage],
            w\<lparr>pv := (pv w)\<lparr>minVotingPeriod := newMinVotingPeriod,
                              minVotesForApproval := newMinVotesForApproval,
                              approvalMajorityPercentage := newApprovalMajorityPercentage\<rparr>\<rparr>))))"

definition updateMinProposerTokenHoldings ::
  "env \<Rightarrow> nat \<Rightarrow> world \<Rightarrow> error + (event list \<times> world)" where
  "updateMinProposerTokenHoldings e newMinProposerTokenHoldings w =
     and_then (onlyOwner e w) (\<lambda>_.
       Inr ([MinProposerTokenHoldingsUpdated (minProposerTokenHoldings (pv w))
               newMinProposerTokenHoldings],
            w\<lparr>pv := (pv w)\<lparr>minProposerTokenHoldings := newMinProposerTokenHoldings\<rparr>\<rparr>))"

definition transferOwnership :: "env \<Rightarrow> address \<Rightarrow> world \<Rightarrow> error + (event list \<times> world)" where
  "transferOwnership e newOwner w =
     and_then (onlyOwner e w) (\<lambda>_.
     and_then (require (newOwner \<noteq> 0) ''New owner address cannot be zero'') (\<lambda>_.
     and_then (require (newOwner \<noteq> owner (pv w))
                 ''New owner must be different from current owner'') (\<lambda>_.
       Inr ([OwnershipTransferred (owner (pv w)) newOwner],
            w\<lparr>pv := (pv w)\<lparr>owner := newOwner\<rparr>\<rparr>))))"

section \<open>Transactions and reachable states\<close>

text \<open>
  A transaction is one call of a state-changing function of the voting contract. A call
  that reverts changes nothing, so only successful calls are steps. Between two such
  transactions the registry that the contract calls and the token balances may change in
  any way (the registry's owner authorises another caller, the owner of the voting
  contract points it to another registry with \<open>updateBlacklistRegistry\<close>, tokens
  are minted and transferred); \<open>Outside\<close> stands for all of that, and never touches
  the proposals or the parameters of the voting contract.
\<close>

datatype call =
    CreateProposal ProposalType string address string nat
  | Vote nat bool
  | EndProposalAndExecute nat
  | ExecuteApprovedProposal nat
  | UpdateVotingParameters nat nat nat
  | UpdateMinProposerTokenHoldings nat
  | TransferOwnership address
  | Outside BlacklistRegistry "address \<Rightarrow> nat"

fun exec :: "env \<Rightarrow> call \<Rightarrow> world \<Rightarrow> error + (event list \<times> world)" where
  "exec e (CreateProposal t url a d n) w =
     and_then (createProposal e t url a d n w) (\<lambda>(pid, evs, w'). Inr (evs, w'))"
| "exec e (Vote pid support) w = vote e pid support w"
| "exec e (EndProposalAndExecute pid) w = endProposalAndExecute e pid w"
| "exec e (ExecuteApprovedProposal pid) w = executeApprovedProposal e pid w"
| "exec e (UpdateVotingParameters p v m) w = updateVotingParameters e p v m w"
| "exec e (UpdateMinProposerTokenHoldings h) w = updateMinProposerTokenHoldings e h w"
| "exec e (TransferOwnership a) w = transferOwnership e a w"
| "exec e (Outside r b) w = Inr ([], w\<lparr>registry := r, balanceOf := b\<rparr>)"

inductive reachable :: "world \<Rightarrow> bool" where
  reach_init:
    "constructor e self ra ta p v m h = Inr c \<Longrightarrow>
     reachable \<lparr>pv = c, registry = r, balanceOf = b\<rparr>"
| reach_step:
    "reachable w \<Longrightarrow> exec e c w = Inr (evs, w') \<Longrightarrow> reachable w'"

text \<open>
  A run of transactions, as the chain executes it: a reverted transaction leaves the
  state as it was. \<open>created_ids\<close> collects what the successful \<open>createProposal\<close>
  calls of the run return, in order.
\<close>

fun run :: "(env \<times> call) list \<Rightarrow> world \<Rightarrow> world" where
  "run [] w = w"
| "run ((e, c) # cs) w =
     (case exec e c w of Inl err \<Rightarrow> run cs w | Inr (evs, w') \<Rightarrow> run cs w')"

fun created_ids :: "(env \<times> call) list \<Rightarrow> world \<Rightarrow> nat list" where
  "created_ids [] w = []"
| "created_ids ((e, CreateProposal t url a d n) # cs) w =
     (case createProposal e t url a d n w of
        Inl err \<Rightarrow> created_ids cs w
      | Inr (pid, evs, w') \<Rightarrow> pid # created_ids cs w')"
| "created_ids ((e, c) # cs) w =
     (case exec e c w of Inl err \<Rightarrow> created_ids cs w | Inr (evs, w') \<Rightarrow> created_ids cs w')"

section \<open>The properties as the specification words them\<close>

text \<open>
  The decision rule of the specification: approved iff the yes votes reach the configured
  minimum, somebody voted, and the floor of \<open>yes * 100 / voters\<close> reaches the configured
  percentage.
\<close>

definition spec_approved :: "nat \<Rightarrow> nat \<Rightarrow> nat \<Rightarrow> nat \<Rightarrow> bool" where
  "spec_approved yes voters minVotes percentage \<longleftrightarrow>
     yes \<ge> minVotes \<and> voters > 0 \<and> yes * 100 div voters \<ge> percentage"

text \<open>The status that the decision rule of the specification gives a resolved proposal.\<close>

definition spec_resolution :: "nat \<Rightarrow> nat \<Rightarrow> nat \<Rightarrow> nat \<Rightarrow> ProposalStatus" where
  "spec_resolution yes voters minVotes percentage =
     (if spec_approved yes voters minVotes percentage then Approved else Rejected)"

abbreviation decided :: "world \<Rightarrow> nat \<Rightarrow> ProposalStatus" where
  "decided w pid \<equiv>
     spec_resolution (yesVotes (proposals (pv w) pid)) (totalVoters (proposals (pv w) pid))
       (minVotesForApproval (pv w)) (approvalMajorityPercentage (pv w))"

text \<open>
  The finite state machine of the specification:
  \<open>Active \<rightarrow> {Approved, Rejected} \<rightarrow> Executed\<close>, the last only from \<open>Approved\<close>.
\<close>

fun spec_transition :: "ProposalStatus \<Rightarrow> ProposalStatus \<Rightarrow> bool" where
  "spec_transition Active Approved = True"
| "spec_transition Active Rejected = True"
| "spec_transition Approved Executed = True"
| "spec_transition _ _ = False"

section \<open>Invariants of the reachable states\<close>

text \<open>
  The tallies of a proposal agree with its \<open>hasVoted\<close> map, and the slots of
  \<open>proposals\<close> from \<open>nextProposalId\<close> on have never been written.
\<close>

definition tally_ok :: "Proposal \<Rightarrow> bool" where
  "tally_ok p \<longleftrightarrow>
     totalVoters p = yesVotes p + noVotes p \<and> totalVoters p = card {a. hasVoted p a}"

definition tally_inv :: "world \<Rightarrow> bool" where
  "tally_inv w \<longleftrightarrow>
     nextProposalId (pv w) \<ge> 1 \<and>
     (\<forall>pid \<ge> nextProposalId (pv w). proposals (pv w) pid = zero_Proposal) \<and>
     (\<forall>pid. tally_ok (proposals (pv w) pid))"


section \<open>An example deployment\<close>

text \<open>
  The deployment of the repository's script, with its thresholds (at least one yes vote,
  51 percent) and a minimum voting period of two hours: address 1 deploys and owns the
  voting contract, which lives at address 9; addresses 2 and 3 hold 100 tokens each.
\<close>

definition example_registry :: BlacklistRegistry where
  "example_registry =
     \<lparr>blacklistedURLs = (\<lambda>_. zero_BlacklistEntry),
      blacklistedAddresses = (\<lambda>_. zero_BlacklistEntry),
      proposalVotingContract = 9, registry_owner = 1\<rparr>"

definition example_world0 :: world where
  "example_world0 =
     \<lparr>pv = \<lparr>proposals = (\<lambda>_. zero_Proposal), nextProposalId = 1, minVotingPeriod = 7200,
            minVotesForApproval = 1, approvalMajorityPercentage = 51,
            minProposerTokenHoldings = 100, owner = 1, this_address = 9\<rparr>,
      registry = example_registry,
      balanceOf = (\<lambda>a. if a = 2 \<or> a = 3 then 100 else 0)\<rparr>"

definition example_url :: string where
  "example_url = ''http://phish.example''"

definition example_create :: "env \<times> call" where
  "example_create =
     (\<lparr>msg_sender = 2, block_timestamp = 1000\<rparr>,
      CreateProposal AddURL example_url 0 ''phishing'' 60)"

definition example_world1 :: world where
  "example_world1 = run [example_create] example_world0"

definition example_vote :: "env \<times> call" where
  "example_vote = (\<lparr>msg_sender = 2, block_timestamp = 2000\<rparr>, Vote 1 True)"

definition example_world2 :: world where
  "example_world2 = run [example_create, example_vote] example_world0"

definition example_end :: "env \<times> call" where
  "example_end = (\<lparr>msg_sender = 3, block_timestamp = 9000\<rparr>, EndProposalAndExecute 1)"

definition example_world3 :: world where
  "example_world3 = run [example_create, example_vote, example_end] example_world0"

definition example_execute :: "env \<times> call" where
  "example_execute = (\<lparr>msg_sender = 1, block_timestamp = 9100\<rparr>, ExecuteApprovedProposal 1)"

definition example_world4 :: world where
  "example_world4 =
     run [example_create, example_vote, example_end, example_execute] example_world0"

text \<open>The resolved example, in a world whose registry already lists the proposed URL.\<close>

definition example_registry_listed :: BlacklistRegistry where
  "example_registry_listed =
     example_registry
       \<lparr>blacklistedURLs := (\<lambda>_. zero_BlacklistEntry)(example_url :=
          \<lparr>entryType = URL, timestamp = 500, entry_proposer = 7, exists_flag = True\<rparr>),
        blacklistedAddresses := (\<lambda>_. zero_BlacklistEntry)(4 :=
          \<lparr>entryType = Address, timestamp = 600, entry_proposer = 7, exists_flag = True\<rparr>)\<rparr>"

definition example_world3_listed :: world where
  "example_world3_listed = example_world3\<lparr>registry := example_registry_listed\<rparr>"

text \<open>
  A run in which the second of three creations fails: address 5 holds no tokens.
\<close>

definition example_creations :: "(env \<times> call) list" where
  "example_creations =
     [example_create,
      (\<lparr>msg_sender = 5, block_timestamp = 1500\<rparr>, CreateProposal AddURL ''http://x.example'' 0 ''spam'' 60),
      (\<lparr>msg_sender = 3, block_timestamp = 1600\<rparr>, CreateProposal AddAddress [] 4 ''scam'' 10000)]"

section \<open>The event indexer\<close>

text \<open>
  The indexer is JavaScript: the arguments of a handler are the decoded arguments of the
  event (a \<open>bigint\<close> for every integer and enum, a string for every address), a
  \<open>Date\<close> is a number of milliseconds, and \<open>null\<close> or \<open>undefined\<close> is
  \<open>None\<close>. A handler also reads the clock (\<open>new Date()\<close>) and, for a vote, asks
  the provider for the block of the event; both are the environment of an application.
  The provider answers with the block (here: its timestamp) or with \<open>null\<close>, or its
  promise is rejected; the handler's \<open>catch\<close> then logs the error, and the handler
  has written nothing. The database is taken to carry out every operation it is given.
\<close>

datatype block_lookup = Lookup_rejected | Lookup_null | Lookup_block nat

record indexer_env =
  clock :: nat
  getBlock :: "nat \<Rightarrow> block_lookup"

text \<open>
  \<open>Number(x)\<close> of a \<open>bigint\<close> is the nearest double, ties to the even mantissa;
  every integer below \<open>2 ^ 53\<close> is a double. (Every \<open>uint256\<close> is far below the
  largest double.) The sum of two doubles is the double nearest to their sum.
\<close>

fun bit_length :: "nat \<Rightarrow> nat" where
  "bit_length n = (if n = 0 then 0 else Suc (bit_length (n div 2)))"

declare bit_length.simps [simp del]

definition round_double :: "nat \<Rightarrow> nat" where
  "round_double n =
     (if n < 2 ^ 53 then n
      else let e = bit_length n - 53;
               q = n div 2 ^ e;
               r = n mod 2 ^ e;
               half = 2 ^ (e - 1)
           in (if r > half \<or> (r = half \<and> odd q) then q + 1 else q) * 2 ^ e)"

definition js_Number :: "nat \<Rightarrow> nat" where
  "js_Number n = round_double n"

definition js_plus :: "nat \<Rightarrow> nat \<Rightarrow> nat" where
  "js_plus a b = round_double (a + b)"

text \<open>
  \<open>toDate\<close>: the seconds of the chain as a \<open>Date\<close>, and the current date when the
  timestamp is missing or the \<open>Date\<close> is invalid. A \<open>Date\<close> is valid up to
  \<open>8.64e15\<close> milliseconds; up to there \<open>Number(t) * 1000\<close> is exact, and beyond
  it the rounded product is beyond it too.
\<close>

definition toDate :: "nat option \<Rightarrow> nat \<Rightarrow> nat" where
  "toDate timestampInSeconds now =
     (case timestampInSeconds of
        None \<Rightarrow> now
      | Some t \<Rightarrow> if t * 1000 \<le> 8640000000000000 then t * 1000 else now)"

text \<open>The documents of the three collections, with the fields of their schemas.\<close>

record BlacklistEntryDoc =
  bl_type :: string
  bl_value :: string
  bl_proposer :: string
  bl_timestamp :: nat
  bl_isActive :: bool

record ProposalDoc =
  pd_proposalId :: nat
  pd_proposalType :: "string option"
  pd_urlValue :: string
  pd_addressValue :: string
  pd_description :: string
  pd_creationTimestamp :: nat
  pd_votingPeriodEnd :: nat
  pd_proposer :: string
  pd_yesVotes :: nat
  pd_noVotes :: nat
  pd_totalVoters :: nat
  pd_status :: string

record VoteDoc =
  vd_proposalId :: nat
  vd_voter :: string
  vd_support :: bool
  vd_timestamp :: nat

record mirror =
  blacklistEntries :: "BlacklistEntryDoc list"
  proposalDocs :: "ProposalDoc list"
  voteDocs :: "VoteDoc list"

text \<open>
  \<open>Model.findOneAndUpdate(filter, update, options)\<close>: the first document that the
  filter matches gets the fields of the update; when there is none, \<open>upsert: true\<close>
  inserts a document made of the filter and the update (\<open>Some\<close> of it), and without
  \<open>upsert\<close> nothing happens (\<open>None\<close>). A field whose value in the update is
  \<open>undefined\<close> is left out of the update: a stored document keeps what it has there,
  and an inserted one has no such field.
\<close>

fun findOneAndUpdate :: "('d \<Rightarrow> bool) \<Rightarrow> ('d \<Rightarrow> 'd) \<Rightarrow> 'd option \<Rightarrow> 'd list \<Rightarrow> 'd list" where
  "findOneAndUpdate matches update upsert [] = (case upsert of None \<Rightarrow> [] | Some d \<Rightarrow> [d])"
| "findOneAndUpdate matches update upsert (d # ds) =
     (if matches d then update d # ds
      else d # findOneAndUpdate matches update upsert ds)"

text \<open>\<open>array[i]\<close>, which is \<open>undefined\<close> out of range.\<close>

definition js_index :: "'a list \<Rightarrow> nat \<Rightarrow> 'a option" where
  "js_index xs i = (if i < length xs then Some (xs ! i) else None)"

definition on_EntryAdded ::
  "indexer_env \<Rightarrow> nat \<Rightarrow> string \<Rightarrow> string \<Rightarrow> nat option \<Rightarrow> string \<Rightarrow> mirror \<Rightarrow> mirror" where
  "on_EntryAdded env type' value' address' timestamp' proposer' m =
     (let entryType = (if js_Number type' = 0 then ''URL'' else ''Address'');
          val = (if entryType = ''URL'' then value' else address')
      in m\<lparr>blacklistEntries :=
             findOneAndUpdate (\<lambda>d. bl_value d = val)
               (\<lambda>d. d\<lparr>bl_type := entryType, bl_value := val, bl_proposer := proposer',
                       bl_timestamp := toDate timestamp' (clock env), bl_isActive := True\<rparr>)
               (Some \<lparr>bl_type = entryType, bl_value = val, bl_proposer = proposer',
                      bl_timestamp = toDate timestamp' (clock env), bl_isActive = True\<rparr>)
               (blacklistEntries m)\<rparr>)"

definition on_EntryRemoved ::
  "indexer_env \<Rightarrow> nat \<Rightarrow> string \<Rightarrow> string \<Rightarrow> nat option \<Rightarrow> string \<Rightarrow> mirror \<Rightarrow> mirror" where
  "on_EntryRemoved env type' value' address' timestamp' remover' m =
     (let entryType = (if js_Number type' = 0 then ''URL'' else ''Address'');
          val = (if entryType = ''URL'' then value' else address')
      in m\<lparr>blacklistEntries :=
             findOneAndUpdate (\<lambda>d. bl_value d = val)
               (\<lambda>d. d\<lparr>bl_isActive := False, bl_timestamp := toDate timestamp' (clock env)\<rparr>)
               None
               (blacklistEntries m)\<rparr>)"

definition proposalTypeMap :: "string list" where
  "proposalTypeMap = [''AddURL'', ''AddAddress'', ''RemoveURL'', ''RemoveAddress'']"

definition statusMap :: "string list" where
  "statusMap = [''Active'', ''Approved'', ''Rejected'', ''Executed'']"

definition on_ProposalCreated ::
  "indexer_env \<Rightarrow> nat \<Rightarrow> nat \<Rightarrow> string \<Rightarrow> string \<Rightarrow> string \<Rightarrow> string \<Rightarrow> nat option
     \<Rightarrow> nat option \<Rightarrow> mirror \<Rightarrow> mirror" where
  "on_ProposalCreated env proposalId type' url' address' description' proposer'
       creationTimestamp' votingPeriodEnd' m =
     (let proposalType' = js_index proposalTypeMap (js_Number type')
      in m\<lparr>proposalDocs :=
             findOneAndUpdate (\<lambda>d. pd_proposalId d = js_Number proposalId)
               (\<lambda>d. d\<lparr>pd_proposalId := js_Number proposalId,
                       pd_proposalType :=
                         (case proposalType' of None \<Rightarrow> pd_proposalType d
                          | Some name \<Rightarrow> Some name),
                       pd_urlValue := url',
                       pd_addressValue := address', pd_description := description',
                       pd_creationTimestamp := toDate creationTimestamp' (clock env),
                       pd_votingPeriodEnd := toDate votingPeriodEnd' (clock env),
                       pd_proposer := proposer', pd_status := ''Active'',
                       pd_yesVotes := 0, pd_noVotes := 0, pd_totalVoters := 0\<rparr>)
               (Some \<lparr>pd_proposalId = js_Number proposalId,
                      pd_proposalType = proposalType', pd_urlValue = url',
                      pd_addressValue = address', pd_description = description',
                      pd_creationTimestamp = toDate creationTimestamp' (clock env),
                      pd_votingPeriodEnd = toDate votingPeriodEnd' (clock env),
                      pd_proposer = proposer', pd_yesVotes = 0, pd_noVotes = 0,
                      pd_totalVoters = 0, pd_status = ''Active''\<rparr>)
               (proposalDocs m)\<rparr>)"

text \<open>
  The timestamp of a vote: that of the event's block, looked up with the provider, and the
  current date when the event has no block number or the provider has no block. When the
  lookup is rejected there is none (\<open>None\<close>), and the handler ends in its \<open>catch\<close>.
\<close>

definition voteTimestamp :: "indexer_env \<Rightarrow> nat option \<Rightarrow> nat option" where
  "voteTimestamp env blockNumber =
     (case blockNumber of
        None \<Rightarrow> Some (clock env)
      | Some n \<Rightarrow>
          if n = 0 then Some (clock env)
          else (case getBlock env n of
                  Lookup_rejected \<Rightarrow> None
                | Lookup_null \<Rightarrow> Some (clock env)
                | Lookup_block t \<Rightarrow> Some (toDate (Some t) (clock env))))"

definition on_VoteCast ::
  "indexer_env \<Rightarrow> nat \<Rightarrow> string \<Rightarrow> bool \<Rightarrow> nat \<Rightarrow> nat \<Rightarrow> nat option \<Rightarrow> mirror \<Rightarrow> mirror" where
  "on_VoteCast env proposalId voter support' yesVotes' noVotes' blockNumber m =
     (let pId = js_Number proposalId
      in case voteTimestamp env blockNumber of
           None \<Rightarrow> m
         | Some voteTime \<Rightarrow>
             m\<lparr>voteDocs :=
                 findOneAndUpdate (\<lambda>d. vd_proposalId d = pId \<and> vd_voter d = voter)
                   (\<lambda>d. d\<lparr>vd_proposalId := pId, vd_voter := voter, vd_support := support',
                           vd_timestamp := voteTime\<rparr>)
                   (Some \<lparr>vd_proposalId = pId, vd_voter = voter, vd_support = support',
                          vd_timestamp = voteTime\<rparr>)
                   (voteDocs m),
               proposalDocs :=
                 findOneAndUpdate (\<lambda>d. pd_proposalId d = pId)
                   (\<lambda>d. d\<lparr>pd_yesVotes := js_Number yesVotes',
                           pd_noVotes := js_Number noVotes',
                           pd_totalVoters := js_plus (js_Number yesVotes') (js_Number noVotes')\<rparr>)
                   None
                   (proposalDocs m)\<rparr>)"

definition on_ProposalStatusUpdated :: "nat \<Rightarrow> nat \<Rightarrow> nat \<Rightarrow> mirror \<Rightarrow> mirror" where
  "on_ProposalStatusUpdated proposalId oldStatus newStatus m =
     (let newStatus' = js_index statusMap (js_Number newStatus)
      in m\<lparr>proposalDocs :=
             findOneAndUpdate (\<lambda>d. pd_proposalId d = js_Number proposalId)
               (\<lambda>d. case newStatus' of None \<Rightarrow> d | Some name \<Rightarrow> d\<lparr>pd_status := name\<rparr>)
               None
               (proposalDocs m)\<rparr>)"

definition empty_mirror :: mirror where
  "empty_mirror = \<lparr>blacklistEntries = [], proposalDocs = [], voteDocs = []\<rparr>"

text \<open>
  Two applications of a handler, five seconds apart, while the provider has no block; two
  more with a provider that knows block 5; and one whose lookup is rejected.
\<close>

definition example_env1 :: indexer_env where
  "example_env1 = \<lparr>clock = 1700000000000, getBlock = (\<lambda>_. Lookup_null)\<rparr>"

definition example_env2 :: indexer_env where
  "example_env2 = \<lparr>clock = 1700000005000, getBlock = (\<lambda>_. Lookup_null)\<rparr>"

definition example_env3 :: indexer_env where
  "example_env3 =
     \<lparr>clock = 1700000000000,
      getBlock = (\<lambda>n. if n = 5 then Lookup_block 1699999990 else Lookup_null)\<rparr>"

definition example_env4 :: indexer_env where
  "example_env4 =
     \<lparr>clock = 1700000005000,
      getBlock = (\<lambda>n. if n = 5 then Lookup_block 1699999990 else Lookup_null)\<rparr>"

definition example_env5 :: indexer_env where
  "example_env5 = \<lparr>clock = 1700000005000, getBlock = (\<lambda>_. Lookup_rejected)\<rparr>"

text \<open>The mirror after the creation of proposal 1 has been indexed.\<close>

definition example_mirror :: mirror where
  "example_mirror =
     on_ProposalCreated example_env1 1 0 ''http://phish.example'' ''0x00'' ''phishing'' ''0xB2''
       (Some 1000) (Some 8200) empty_mirror"

text \<open>
  A timestamp that \<open>toDate\<close> takes from the event, whatever the clock shows.
\<close>

definition valid_timestamp :: "nat option \<Rightarrow> bool" where
  "valid_timestamp ts = (case ts of None \<Rightarrow> False | Some t \<Rightarrow> t * 1000 \<le> 8640000000000000)"

section \<open>Basic facts\<close>

lemma and_then_simps [simp]:
  "and_then (Inl err) f = Inl err"
  "and_then (Inr x) f = f x"
  by (simp_all add: and_then_def)

lemma require_simps [simp]:
  "require True msg = Inr ()"
  "require False msg = Inl (Revert msg)"
  by (simp_all add: require_def)

lemma and_then_Inr_iff:
  "and_then r f = Inr y \<longleftrightarrow> (\<exists>x. r = Inr x \<and> f x = Inr y)"
  by (cases r) simp_all

lemma require_Inr_iff [simp]: "require c msg = Inr u \<longleftrightarrow> c"
  by (simp add: require_def)

lemma checked_add_Inr_iff:
  "checked_add a b = Inr c \<longleftrightarrow> c = a + b \<and> a + b \<le> MAX_UINT256"
  by (auto simp: checked_add_def)

section \<open>Creating a proposal\<close>

lemma createProposal_Inr:
  assumes "createProposal e t url a d n w = Inr (pid, evs, w')"
  shows "pid = nextProposalId (pv w)"
    and "w' = w\<lparr>pv := (pv w)\<lparr>proposals := (proposals (pv w))(pid :=
               (proposals (pv w) pid)
                 \<lparr>proposal_id := pid, proposalType := t, urlValue := url,
                  addressValue := a, description := d,
                  creationTimestamp := block_timestamp e,
                  votingPeriodEnd := block_timestamp e + max n (minVotingPeriod (pv w)),
                  proposer := msg_sender e, yesVotes := 0, noVotes := 0, status := Active,
                  totalVoters := 0\<rparr>),
             nextProposalId := pid + 1\<rparr>\<rparr>"
  using assms
  by (auto simp: createProposal_def and_then_Inr_iff checked_add_Inr_iff Let_def max_def
           split: if_splits)

text \<open>
  C4. A successful \<open>createProposal\<close> stores the block's timestamp as
  \<open>creationTimestamp\<close> and \<open>creationTimestamp + max requested minVotingPeriod\<close> as
  \<open>votingPeriodEnd\<close>: a requested duration below the configured minimum is raised to
  the minimum, a longer one is used as it is.
\<close>

theorem createProposal_votingPeriodEnd:
  "createProposal e t url a d requested w = Inr (pid, evs, w') \<Longrightarrow>
     creationTimestamp (proposals (pv w') pid) = block_timestamp e \<and>
     votingPeriodEnd (proposals (pv w') pid) =
       creationTimestamp (proposals (pv w') pid) + max requested (minVotingPeriod (pv w)) \<and>
     (requested < minVotingPeriod (pv w) \<longrightarrow>
        votingPeriodEnd (proposals (pv w') pid) = block_timestamp e + minVotingPeriod (pv w)) \<and>
     (requested \<ge> minVotingPeriod (pv w) \<longrightarrow>
        votingPeriodEnd (proposals (pv w') pid) = block_timestamp e + requested)"
  by (frule createProposal_Inr(2)) (simp add: max_def)

lemma example_create_result:
  "createProposal \<lparr>msg_sender = 2, block_timestamp = 1000\<rparr> AddURL example_url 0 ''phishing'' 60
     example_world0 =
   Inr (1, [ProposalCreated 1 AddURL example_url 0 ''phishing'' 2 1000 8200], example_world1)"
  by (simp add: example_world1_def example_create_def createProposal_def example_world0_def
        example_url_def checked_add_def MAX_UINT256_def)

theorem createProposal_votingPeriodEnd_witness:
  "createProposal \<lparr>msg_sender = 2, block_timestamp = 1000\<rparr> AddURL example_url 0 ''phishing'' 60
     example_world0 =
   Inr (1, [ProposalCreated 1 AddURL example_url 0 ''phishing'' 2 1000 8200], example_world1) \<and>
   creationTimestamp (proposals (pv example_world1) 1) = 1000 \<and>
   votingPeriodEnd (proposals (pv example_world1) 1) = 1000 + 7200"
  using createProposal_votingPeriodEnd [OF example_create_result] example_create_result
  by (simp add: example_world0_def)

section \<open>What each transaction does, and the invariants it keeps\<close>

lemma vote_Inr:
  assumes "vote e pid support w = Inr (evs, w')"
  shows "0 < pid" "pid < nextProposalId (pv w)"
    and "status (proposals (pv w) pid) = Active"
    and "block_timestamp e < votingPeriodEnd (proposals (pv w) pid)"
    and "\<not> hasVoted (proposals (pv w) pid) (msg_sender e)"
    and "w' = set_proposal pid
           ((proposals (pv w) pid)
              \<lparr>yesVotes := yesVotes (proposals (pv w) pid) + (if support then 1 else 0),
               noVotes := noVotes (proposals (pv w) pid) + (if support then 0 else 1),
               hasVoted := (hasVoted (proposals (pv w) pid))(msg_sender e := True),
               totalVoters := totalVoters (proposals (pv w) pid) + 1\<rparr>) w"
    and "evs = [VoteCast pid (msg_sender e) support
                  (yesVotes (proposals (pv w) pid) + (if support then 1 else 0))
                  (noVotes (proposals (pv w) pid) + (if support then 0 else 1))]"
  using assms
  by (auto simp: vote_def proposalExists_def proposalActive_def and_then_Inr_iff
        checked_add_Inr_iff Let_def split: if_splits)

lemma endProposalAndExecute_Inr:
  assumes "endProposalAndExecute e pid w = Inr (evs, w')"
  shows "0 < pid" "pid < nextProposalId (pv w)"
    and "status (proposals (pv w) pid) = Active"
    and "votingPeriodEnd (proposals (pv w) pid) \<le> block_timestamp e"
    and "\<exists>s. (s = Approved \<or> s = Rejected) \<and>
           w' = set_proposal pid ((proposals (pv w) pid)\<lparr>status := s\<rparr>) w"
  using assms
  by (auto simp: endProposalAndExecute_def proposalExists_def proposalReadyToResolve_def
        and_then_Inr_iff Let_def split: if_splits)

lemma executeApprovedProposal_Inr:
  assumes "executeApprovedProposal e pid w = Inr (evs, w')"
  shows "msg_sender e = owner (pv w)" "0 < pid" "pid < nextProposalId (pv w)"
    and "status (proposals (pv w) pid) = Approved"
    and "\<exists>revs r'. registry_action e (proposals (pv w) pid) w = Inr (revs, r') \<and>
           w' = set_proposal pid ((proposals (pv w) pid)\<lparr>status := Executed\<rparr>)
                  (w\<lparr>registry := r'\<rparr>)"
  using assms
  by (auto simp: executeApprovedProposal_def proposalExists_def onlyOwner_def
        and_then_Inr_iff Let_def split: if_splits)

lemma admin_Inr:
  "updateVotingParameters e p v m w = Inr (evs, w') \<Longrightarrow>
     proposals (pv w') = proposals (pv w) \<and> nextProposalId (pv w') = nextProposalId (pv w)"
  "updateMinProposerTokenHoldings e h w = Inr (evs, w') \<Longrightarrow>
     proposals (pv w') = proposals (pv w) \<and> nextProposalId (pv w') = nextProposalId (pv w)"
  "transferOwnership e a w = Inr (evs, w') \<Longrightarrow>
     proposals (pv w') = proposals (pv w) \<and> nextProposalId (pv w') = nextProposalId (pv w)"
  by (auto simp: updateVotingParameters_def updateMinProposerTokenHoldings_def
        transferOwnership_def and_then_Inr_iff)

lemma card_voters_upd:
  fixes f :: "address \<Rightarrow> bool"
  assumes "\<not> f x"
  shows "card {a. (f(x := True)) a} = card {a. f a} + 1"
proof -
  have "{a. (f(x := True)) a} = insert x {a. f a}" by auto
  moreover have "x \<notin> {a. f a}" using assms by simp
  ultimately show ?thesis by simp
qed


lemma tally_ok_zero: "tally_ok zero_Proposal"
  by (simp add: tally_ok_def zero_Proposal_def)

lemma tally_ok_created:
  "tally_ok (zero_Proposal\<lparr>proposal_id := i, proposalType := t, urlValue := u,
      addressValue := a, description := d, creationTimestamp := c, votingPeriodEnd := v,
      proposer := s, yesVotes := 0, noVotes := 0, status := Active, totalVoters := 0\<rparr>)"
  by (simp add: tally_ok_def zero_Proposal_def)

lemma tally_ok_voted:
  assumes "tally_ok p" "\<not> hasVoted p x"
  shows "tally_ok (p\<lparr>yesVotes := yesVotes p + (if s then 1 else 0),
                     noVotes := noVotes p + (if s then 0 else 1),
                     hasVoted := (hasVoted p)(x := True),
                     totalVoters := totalVoters p + 1\<rparr>)"
proof -
  have "card {a. ((hasVoted p)(x := True)) a} = card {a. hasVoted p a} + 1"
    using assms(2) by (rule card_voters_upd)
  with assms(1) show ?thesis
    by (cases s) (simp_all add: tally_ok_def del: fun_upd_apply)
qed

lemma tally_ok_status: "tally_ok (p\<lparr>status := s\<rparr>) = tally_ok p"
  by (simp add: tally_ok_def)

lemma tally_inv_init:
  "constructor e self ra ta p v m h = Inr c \<Longrightarrow> tally_inv \<lparr>pv = c, registry = r, balanceOf = b\<rparr>"
  by (auto simp: constructor_def and_then_Inr_iff tally_inv_def tally_ok_zero)

lemma tally_inv_createProposal:
  assumes "tally_inv w" "createProposal e t url a d n w = Inr (pid, evs, w')"
  shows "tally_inv w'"
proof -
  note r = createProposal_Inr [OF assms(2)]
  have z: "proposals (pv w) pid = zero_Proposal"
    using assms(1) r(1) by (simp add: tally_inv_def)
  have n: "nextProposalId (pv w') = pid + 1"
    by (subst r(2)) simp
  have p: "proposals (pv w') = (proposals (pv w))(pid := zero_Proposal
      \<lparr>proposal_id := pid, proposalType := t, urlValue := url,
       addressValue := a, description := d, creationTimestamp := block_timestamp e,
       votingPeriodEnd := block_timestamp e + max n (minVotingPeriod (pv w)),
       proposer := msg_sender e, yesVotes := 0, noVotes := 0, status := Active,
       totalVoters := 0\<rparr>)"
    by (subst r(2)) (simp add: z)
  show ?thesis
    using assms(1) unfolding tally_inv_def n p
    by (simp add: r(1) tally_ok_created)
qed

lemma tally_inv_vote:
  assumes "tally_inv w" "vote e pid support w = Inr (evs, w')"
  shows "tally_inv w'"
proof -
  note r = vote_Inr [OF assms(2)]
  have "tally_ok (proposals (pv w) pid)"
    using assms(1) by (simp add: tally_inv_def)
  from tally_ok_voted [OF this r(5), of support] show ?thesis
    using assms(1) r(2) unfolding tally_inv_def r(6)
    by (cases support) (simp_all add: set_proposal_def)
qed

lemma tally_inv_endProposalAndExecute:
  assumes "tally_inv w" "endProposalAndExecute e pid w = Inr (evs, w')"
  shows "tally_inv w'"
proof -
  note r = endProposalAndExecute_Inr [OF assms(2)]
  from r(5) obtain s where
    w': "w' = set_proposal pid ((proposals (pv w) pid)\<lparr>status := s\<rparr>) w"
    by blast
  show ?thesis
    using assms(1) r(2) unfolding tally_inv_def w'
    by (simp add: set_proposal_def tally_ok_status)
qed

lemma tally_inv_executeApprovedProposal:
  assumes "tally_inv w" "executeApprovedProposal e pid w = Inr (evs, w')"
  shows "tally_inv w'"
proof -
  note r = executeApprovedProposal_Inr [OF assms(2)]
  from r(5) obtain r' where
    w': "w' = set_proposal pid ((proposals (pv w) pid)\<lparr>status := Executed\<rparr>)
               (w\<lparr>registry := r'\<rparr>)"
    by blast
  show ?thesis
    using assms(1) r(3) unfolding tally_inv_def w'
    by (simp add: set_proposal_def tally_ok_status)
qed

lemma tally_inv_exec:
  assumes "tally_inv w" "exec e c w = Inr (evs, w')"
  shows "tally_inv w'"
proof (cases c)
  case (CreateProposal t url a d n)
  with assms(2) obtain pid where "createProposal e t url a d n w = Inr (pid, evs, w')"
    by (auto simp: and_then_Inr_iff)
  with assms(1) show ?thesis by (rule tally_inv_createProposal)
next
  case (Vote pid support)
  with assms show ?thesis by (simp add: tally_inv_vote)
next
  case (EndProposalAndExecute pid)
  with assms show ?thesis by (simp add: tally_inv_endProposalAndExecute)
next
  case (ExecuteApprovedProposal pid)
  with assms show ?thesis by (simp add: tally_inv_executeApprovedProposal)
next
  case (UpdateVotingParameters p v m)
  with assms(2) admin_Inr(1) [of e p v m w evs w'] assms(1) show ?thesis
    by (simp add: tally_inv_def)
next
  case (UpdateMinProposerTokenHoldings h)
  with assms(2) admin_Inr(2) [of e h w evs w'] assms(1) show ?thesis
    by (simp add: tally_inv_def)
next
  case (TransferOwnership a)
  with assms(2) admin_Inr(3) [of e a w evs w'] assms(1) show ?thesis
    by (simp add: tally_inv_def)
next
  case (Outside r b)
  with assms show ?thesis by (auto simp: tally_inv_def)
qed

lemma reachable_tally_inv: "reachable w \<Longrightarrow> tally_inv w"
proof (induction rule: reachable.induct)
  case (reach_init e self ra ta p v m h c r b)
  then show ?case by (rule tally_inv_init)
next
  case (reach_step w e c evs w')
  then show ?case by (blast intro: tally_inv_exec)
qed

lemma voters_bound:
  fixes f :: "address \<Rightarrow> bool"
  shows "card {a. f a} \<le> 2 ^ 160"
proof -
  have "card {a. f a} \<le> card (UNIV :: address set)"
    by (rule card_mono) simp_all
  then show ?thesis by (simp add: card_word)
qed

lemma tally_ok_no_overflow:
  assumes "tally_ok p"
  shows "yesVotes p * 100 \<le> MAX_UINT256"
proof -
  have "yesVotes p \<le> totalVoters p" using assms by (simp add: tally_ok_def)
  also have "\<dots> \<le> 2 ^ 160"
    using assms voters_bound [of "hasVoted p"] by (simp add: tally_ok_def)
  finally have "yesVotes p * 100 \<le> 2 ^ 160 * 100" by simp
  also have "\<dots> \<le> MAX_UINT256" by (simp add: MAX_UINT256_def)
  finally show ?thesis .
qed

lemma reachable_run: "reachable w \<Longrightarrow> reachable (run cs w)"
proof (induction cs arbitrary: w)
  case Nil
  then show ?case by simp
next
  case (Cons x cs)
  obtain e c where x: "x = (e, c)" by (cases x)
  show ?case
  proof (cases "exec e c w")
    case (Inl err)
    with Cons x show ?thesis by simp
  next
    case (Inr y)
    obtain evs w' where "y = (evs, w')" by (cases y)
    with Inr Cons.prems have "reachable w'" by (blast intro: reach_step)
    with Cons.IH Inr x \<open>y = (evs, w')\<close> show ?thesis by simp
  qed
qed

lemma example_world0_reachable: "reachable example_world0"
  unfolding example_world0_def
  by (rule reach_init [of "\<lparr>msg_sender = 1, block_timestamp = 0\<rparr>" 9 7 8 7200 1 51 100])
     (simp add: constructor_def)

lemmas example_defs =
  example_world0_def example_registry_def example_url_def example_create_def
  example_vote_def example_end_def example_execute_def

lemma example_world1_eq:
  "example_world1 = set_proposal 1
     (zero_Proposal\<lparr>proposal_id := 1, urlValue := example_url, description := ''phishing'',
        creationTimestamp := 1000, votingPeriodEnd := 8200, proposer := 2\<rparr>)
     (example_world0\<lparr>pv := (pv example_world0)\<lparr>nextProposalId := 2\<rparr>\<rparr>)"
  by (simp add: example_world1_def example_defs createProposal_def checked_add_def
        MAX_UINT256_def set_proposal_def zero_Proposal_def)

lemma example_world2_eq:
  "example_world2 = set_proposal 1
     (zero_Proposal\<lparr>proposal_id := 1, urlValue := example_url, description := ''phishing'',
        creationTimestamp := 1000, votingPeriodEnd := 8200, proposer := 2,
        yesVotes := 1, hasVoted := (\<lambda>_. False)(2 := True), totalVoters := 1\<rparr>)
     (example_world0\<lparr>pv := (pv example_world0)\<lparr>nextProposalId := 2\<rparr>\<rparr>)"
  by (simp add: example_world2_def example_defs createProposal_def vote_def
        proposalExists_def proposalActive_def checked_add_def
        MAX_UINT256_def set_proposal_def zero_Proposal_def)


lemma meetsApprovalCriteria_eq:
  assumes "tally_ok p"
  shows "meetsApprovalCriteria p c =
           Inr (spec_approved (yesVotes p) (totalVoters p) (minVotesForApproval c)
                  (approvalMajorityPercentage c))"
  using tally_ok_no_overflow [OF assms]
  by (simp add: meetsApprovalCriteria_def spec_approved_def checked_mul_def checked_div_def)

text \<open>
  C1. In a reachable state, resolving an existing proposal that is \<open>Active\<close> and
  whose voting period has ended succeeds and sets its status to \<open>Approved\<close> exactly
  when the yes votes reach \<open>minVotesForApproval\<close>, somebody voted and the floor of
  \<open>yesVotes * 100 / totalVoters\<close> reaches \<open>approvalMajorityPercentage\<close>, and to
  \<open>Rejected\<close> otherwise; with no voters it is \<open>Rejected\<close>. The new status is a
  function of these four numbers, and nothing else of the state changes.
\<close>

theorem endProposalAndExecute_decision:
  assumes "reachable w"
    and "0 < pid" and "pid < nextProposalId (pv w)"
    and "status (proposals (pv w) pid) = Active"
    and "votingPeriodEnd (proposals (pv w) pid) \<le> block_timestamp e"
  shows "endProposalAndExecute e pid w =
           Inr ([ProposalStatusUpdated pid Active (decided w pid)],
                set_proposal pid ((proposals (pv w) pid)\<lparr>status := decided w pid\<rparr>) w) \<and>
         status (proposals (pv (set_proposal pid
                   ((proposals (pv w) pid)\<lparr>status := decided w pid\<rparr>) w)) pid) = decided w pid \<and>
         (decided w pid = Approved \<longleftrightarrow>
            yesVotes (proposals (pv w) pid) \<ge> minVotesForApproval (pv w) \<and>
            totalVoters (proposals (pv w) pid) > 0 \<and>
            yesVotes (proposals (pv w) pid) * 100 div totalVoters (proposals (pv w) pid)
              \<ge> approvalMajorityPercentage (pv w)) \<and>
         (decided w pid \<noteq> Approved \<longleftrightarrow> decided w pid = Rejected) \<and>
         (totalVoters (proposals (pv w) pid) = 0 \<longrightarrow> decided w pid = Rejected)"
proof -
  have "tally_ok (proposals (pv w) pid)"
    using reachable_tally_inv [OF assms(1)] by (simp add: tally_inv_def)
  note m = meetsApprovalCriteria_eq [OF this, of "pv w"]
  have "endProposalAndExecute e pid w =
           Inr ([ProposalStatusUpdated pid Active (decided w pid)],
                set_proposal pid ((proposals (pv w) pid)\<lparr>status := decided w pid\<rparr>) w)"
    using assms(2-5)
    by (simp add: endProposalAndExecute_def proposalExists_def proposalReadyToResolve_def m
          spec_resolution_def Let_def)
  then show ?thesis
    by (simp add: set_proposal_def spec_resolution_def spec_approved_def)
qed

lemma example_world3_eq:
  "example_world3 = set_proposal 1 ((proposals (pv example_world2) 1)\<lparr>status := Approved\<rparr>)
     example_world2"
  by (simp add: example_world3_def example_world2_def example_defs createProposal_def vote_def
        endProposalAndExecute_def meetsApprovalCriteria_def proposalReadyToResolve_def
        proposalExists_def proposalActive_def checked_add_def checked_mul_def checked_div_def
        MAX_UINT256_def set_proposal_def zero_Proposal_def)

lemma example_world2_reachable: "reachable example_world2"
  unfolding example_world2_def by (rule reachable_run [OF example_world0_reachable])

lemma example_world2_fields:
  "proposals (pv example_world2) = (\<lambda>_. zero_Proposal)(1 :=
     zero_Proposal\<lparr>proposal_id := 1, urlValue := example_url, description := ''phishing'',
        creationTimestamp := 1000, votingPeriodEnd := 8200, proposer := 2,
        yesVotes := 1, hasVoted := (\<lambda>_. False)(2 := True), totalVoters := 1\<rparr>)"
  "nextProposalId (pv example_world2) = 2"
  "minVotesForApproval (pv example_world2) = 1"
  "approvalMajorityPercentage (pv example_world2) = 51"
  "owner (pv example_world2) = 1"
  by (simp_all add: example_world2_eq set_proposal_def example_world0_def)

theorem endProposalAndExecute_decision_witness:
  "reachable example_world2 \<and>
   status (proposals (pv example_world2) 1) = Active \<and>
   votingPeriodEnd (proposals (pv example_world2) 1) \<le> 9000 \<and>
   decided example_world2 1 = Approved \<and>
   endProposalAndExecute \<lparr>msg_sender = 3, block_timestamp = 9000\<rparr> 1 example_world2 =
     Inr ([ProposalStatusUpdated 1 Active Approved], example_world3)"
proof -
  note f = example_world2_fields
  have a: "status (proposals (pv example_world2) 1) = Active"
    and v: "votingPeriodEnd (proposals (pv example_world2) 1) \<le> 9000"
    by (simp_all add: f zero_Proposal_def)
  have d: "decided example_world2 1 = Approved"
    by (simp add: f zero_Proposal_def spec_resolution_def spec_approved_def)
  have "endProposalAndExecute \<lparr>msg_sender = 3, block_timestamp = 9000\<rparr> 1 example_world2 =
     Inr ([ProposalStatusUpdated 1 Active (decided example_world2 1)],
          set_proposal 1 ((proposals (pv example_world2) 1)
            \<lparr>status := decided example_world2 1\<rparr>) example_world2)"
    using endProposalAndExecute_decision
      [OF example_world2_reachable, of 1 "\<lparr>msg_sender = 3, block_timestamp = 9000\<rparr>"] a v
    by (simp add: f(2))
  then show ?thesis
    using example_world2_reachable a v d by (simp add: example_world3_eq)
qed

section \<open>The status of a proposal\<close>

lemma spec_transition_iff:
  "spec_transition s s' \<longleftrightarrow>
     s = Active \<and> (s' = Approved \<or> s' = Rejected) \<or> s = Approved \<and> s' = Executed"
  by (cases s; cases s') simp_all

lemma exec_status:
  assumes "tally_inv w" and "exec e c w = Inr (evs, w')"
  shows "status (proposals (pv w') pid) = status (proposals (pv w) pid) \<or>
         (c = EndProposalAndExecute pid \<or> c = ExecuteApprovedProposal pid) \<and>
         spec_transition (status (proposals (pv w) pid)) (status (proposals (pv w') pid))"
proof (cases c)
  case (CreateProposal t url a d n)
  with assms(2) obtain q where q: "createProposal e t url a d n w = Inr (q, evs, w')"
    by (auto simp: and_then_Inr_iff)
  note r = createProposal_Inr [OF q]
  have "status (proposals (pv w) q) = Active"
    using assms(1) r(1) by (simp add: tally_inv_def zero_Proposal_def)
  then show ?thesis by (subst r(2)) simp
next
  case (Vote q support)
  with assms(2) have "vote e q support w = Inr (evs, w')" by simp
  from vote_Inr(6) [OF this] show ?thesis by (simp add: set_proposal_def)
next
  case (EndProposalAndExecute q)
  with assms(2) have "endProposalAndExecute e q w = Inr (evs, w')" by simp
  from endProposalAndExecute_Inr(3,5) [OF this] EndProposalAndExecute show ?thesis
    by (cases "pid = q") (auto simp: set_proposal_def)
next
  case (ExecuteApprovedProposal q)
  with assms(2) have "executeApprovedProposal e q w = Inr (evs, w')" by simp
  from executeApprovedProposal_Inr(4,5) [OF this] ExecuteApprovedProposal show ?thesis
    by (cases "pid = q") (auto simp: set_proposal_def)
next
  case (UpdateVotingParameters p v m)
  with assms(2) admin_Inr(1) [of e p v m w evs w'] show ?thesis by simp
next
  case (UpdateMinProposerTokenHoldings h)
  with assms(2) admin_Inr(2) [of e h w evs w'] show ?thesis by simp
next
  case (TransferOwnership a)
  with assms(2) admin_Inr(3) [of e a w evs w'] show ?thesis by simp
next
  case (Outside r b)
  with assms(2) show ?thesis by auto
qed

lemma run_status:
  assumes "tally_inv w"
  shows "(status (proposals (pv w) pid) \<noteq> Active \<longrightarrow>
            status (proposals (pv (run cs w)) pid) \<noteq> Active) \<and>
         (status (proposals (pv w) pid) = Rejected \<or> status (proposals (pv w) pid) = Executed \<longrightarrow>
            status (proposals (pv (run cs w)) pid) = status (proposals (pv w) pid))"
  using assms
proof (induction cs arbitrary: w)
  case Nil
  then show ?case by simp
next
  case (Cons x cs)
  obtain e c where x: "x = (e, c)" by (cases x)
  show ?case
  proof (cases "exec e c w")
    case (Inl err)
    with Cons x show ?thesis by simp
  next
    case (Inr y)
    obtain evs w' where y: "y = (evs, w')" by (cases y)
    have i: "tally_inv w'" using Cons.prems Inr y by (blast intro: tally_inv_exec)
    have r: "run (x # cs) w = run cs w'" using Inr x y by simp
    from exec_status [OF Cons.prems, of e c evs w' pid] Inr y Cons.IH [OF i]
    show ?thesis unfolding r by (auto simp: spec_transition_iff)
  qed
qed

lemma endProposalAndExecute_not_Active:
  "status (proposals (pv w) pid) \<noteq> Active \<Longrightarrow>
     endProposalAndExecute e pid w =
       (if 0 < pid \<and> pid < nextProposalId (pv w)
        then Inl (Revert ''Proposal not in active state for resolution'')
        else Inl (Revert ''Proposal does not exist''))"
  by (simp add: endProposalAndExecute_def proposalExists_def proposalReadyToResolve_def)

lemma executeApprovedProposal_not_Approved:
  "status (proposals (pv w) pid) \<noteq> Approved \<Longrightarrow>
     executeApprovedProposal e pid w =
       (if msg_sender e \<noteq> owner (pv w) then Inl (Revert ''Only owner can call this function'')
        else if 0 < pid \<and> pid < nextProposalId (pv w)
        then Inl (Revert ''Proposal is not in Approved state for execution'')
        else Inl (Revert ''Proposal does not exist''))"
  by (simp add: executeApprovedProposal_def proposalExists_def onlyOwner_def)

lemma fails_iff: "(\<exists>err. r = Inl err) \<longleftrightarrow> (\<forall>y. r \<noteq> Inr y)"
  by (cases r) simp_all

lemma status_step:
  assumes "reachable w" and "exec e c w = Inr (evs, w')"
  shows "(status (proposals (pv w') pid) = status (proposals (pv w) pid) \<or>
          spec_transition (status (proposals (pv w) pid)) (status (proposals (pv w') pid))) \<and>
         (\<forall>t url a d n. c = CreateProposal t url a d n \<longrightarrow>
            status (proposals (pv w') (nextProposalId (pv w))) = Active) \<and>
         (c = EndProposalAndExecute pid \<longrightarrow>
            status (proposals (pv w) pid) = Active \<and>
            (status (proposals (pv w') pid) = Approved \<or>
             status (proposals (pv w') pid) = Rejected) \<and>
            (\<forall>cs e2. \<exists>err. endProposalAndExecute e2 pid (run cs w') = Inl err)) \<and>
         (c = ExecuteApprovedProposal pid \<longrightarrow>
            status (proposals (pv w) pid) = Approved \<and>
            status (proposals (pv w') pid) = Executed \<and>
            (\<forall>cs e2. \<exists>err. executeApprovedProposal e2 pid (run cs w') = Inl err)) \<and>
         (status (proposals (pv w') pid) \<noteq> status (proposals (pv w) pid) \<longrightarrow>
            c = EndProposalAndExecute pid \<or> c = ExecuteApprovedProposal pid) \<and>
         (status (proposals (pv w) pid) = Rejected \<or> status (proposals (pv w) pid) = Executed \<longrightarrow>
            (\<forall>cs. status (proposals (pv (run cs w)) pid) = status (proposals (pv w) pid)))"
proof -
  note i = reachable_tally_inv [OF assms(1)]
  have i': "tally_inv w'" using i assms(2) by (rule tally_inv_exec)
  note st = exec_status [OF i assms(2), of pid]
  have 1: "status (proposals (pv w') pid) = status (proposals (pv w) pid) \<or>
          spec_transition (status (proposals (pv w) pid)) (status (proposals (pv w') pid))"
    using st by blast
  have 2: "status (proposals (pv w') (nextProposalId (pv w))) = Active"
    if "c = CreateProposal t url a d n" for t url a d n
  proof -
    from that assms(2) obtain q where "createProposal e t url a d n w = Inr (q, evs, w')"
      by (auto simp: and_then_Inr_iff)
    note r = createProposal_Inr [OF this]
    show ?thesis by (subst r(2)) (simp add: r(1))
  qed
  have 3: "status (proposals (pv w) pid) = Active \<and>
            (status (proposals (pv w') pid) = Approved \<or>
             status (proposals (pv w') pid) = Rejected) \<and>
            (\<forall>cs e2. \<exists>err. endProposalAndExecute e2 pid (run cs w') = Inl err)"
    if c: "c = EndProposalAndExecute pid"
  proof -
    from c assms(2) have "endProposalAndExecute e pid w = Inr (evs, w')" by simp
    from endProposalAndExecute_Inr(3,5) [OF this]
    have a: "status (proposals (pv w) pid) = Active"
      and b: "status (proposals (pv w') pid) = Approved \<or>
             status (proposals (pv w') pid) = Rejected"
      by (auto simp: set_proposal_def)
    from b have "status (proposals (pv w') pid) \<noteq> Active" by auto
    with run_status [OF i', of pid]
    have "status (proposals (pv (run cs w')) pid) \<noteq> Active" for cs by blast
    then have "\<exists>err. endProposalAndExecute e2 pid (run cs w') = Inl err" for cs e2
      by (simp add: endProposalAndExecute_not_Active)
    with a b show ?thesis by blast
  qed
  have 4: "status (proposals (pv w) pid) = Approved \<and>
            status (proposals (pv w') pid) = Executed \<and>
            (\<forall>cs e2. \<exists>err. executeApprovedProposal e2 pid (run cs w') = Inl err)"
    if c: "c = ExecuteApprovedProposal pid"
  proof -
    from c assms(2) have "executeApprovedProposal e pid w = Inr (evs, w')" by simp
    from executeApprovedProposal_Inr(4,5) [OF this]
    have a: "status (proposals (pv w) pid) = Approved"
      and b: "status (proposals (pv w') pid) = Executed"
      by (auto simp: set_proposal_def)
    with run_status [OF i', of pid]
    have "status (proposals (pv (run cs w')) pid) = Executed" for cs by simp
    then have "\<exists>err. executeApprovedProposal e2 pid (run cs w') = Inl err" for cs e2
      by (simp add: executeApprovedProposal_not_Approved)
    with a b show ?thesis by blast
  qed
  have 5: "c = EndProposalAndExecute pid \<or> c = ExecuteApprovedProposal pid"
    if "status (proposals (pv w') pid) \<noteq> status (proposals (pv w) pid)"
    using st that by blast
  have 6: "\<forall>cs. status (proposals (pv (run cs w)) pid) = status (proposals (pv w) pid)"
    if "status (proposals (pv w) pid) = Rejected \<or> status (proposals (pv w) pid) = Executed"
    using run_status [OF i, of pid] that by blast
  from 1 2 3 4 5 6 show ?thesis by blast
qed

lemma endProposalAndExecute_succeeds:
  assumes "reachable w"
    and "0 < pid" and "pid < nextProposalId (pv w)"
    and "status (proposals (pv w) pid) = Active"
    and "votingPeriodEnd (proposals (pv w) pid) \<le> block_timestamp e"
  shows "endProposalAndExecute e pid w =
           Inr ([ProposalStatusUpdated pid Active (decided w pid)],
                set_proposal pid ((proposals (pv w) pid)\<lparr>status := decided w pid\<rparr>) w)"
proof -
  have "tally_ok (proposals (pv w) pid)"
    using reachable_tally_inv [OF assms(1)] by (simp add: tally_inv_def)
  note m = meetsApprovalCriteria_eq [OF this, of "pv w"]
  show ?thesis
    using assms(2-5)
    by (simp add: endProposalAndExecute_def proposalExists_def proposalReadyToResolve_def m
          spec_resolution_def Let_def)
qed

lemma executeApprovedProposal_succeeds:
  assumes "msg_sender e = owner (pv w)"
    and "0 < pid" and "pid < nextProposalId (pv w)"
    and "status (proposals (pv w) pid) = Approved"
    and "registry_action e (proposals (pv w) pid) w = Inr (revs, r')"
  shows "executeApprovedProposal e pid w =
       Inr (revs @
            [ProposalExecuted pid (proposalType (proposals (pv w) pid))
               (urlValue (proposals (pv w) pid)) (addressValue (proposals (pv w) pid))
               (msg_sender e),
             ProposalStatusUpdated pid Approved Executed],
            set_proposal pid ((proposals (pv w) pid)\<lparr>status := Executed\<rparr>)
              (w\<lparr>registry := r'\<rparr>))"
  using assms
  by (simp add: executeApprovedProposal_def onlyOwner_def proposalExists_def Let_def)

text \<open>
  C2. In a reachable state: every successful transaction leaves the status of a proposal
  as it is or moves it along \<open>Active \<rightarrow> {Approved, Rejected}\<close>,
  \<open>Approved \<rightarrow> Executed\<close>: a created proposal is \<open>Active\<close>; a resolution
  takes its proposal from \<open>Active\<close> to \<open>Approved\<close> or \<open>Rejected\<close>, and every
  later resolution of it fails; an execution takes its proposal from \<open>Approved\<close> to
  \<open>Executed\<close>, and every later execution of it fails; only these two calls change a
  status; \<open>Rejected\<close> and \<open>Executed\<close> are kept by every run of transactions.
  And the two moves are taken: resolving an existing \<open>Active\<close> proposal whose voting
  period has ended succeeds and leaves it \<open>Approved\<close> or \<open>Rejected\<close>, and the
  owner's execution of an existing \<open>Approved\<close> proposal succeeds and leaves it
  \<open>Executed\<close> whenever the call into the registry succeeds.
\<close>

theorem proposal_status_state_machine:
  assumes "reachable w"
  shows "(\<forall>e c evs w'. exec e c w = Inr (evs, w') \<longrightarrow>
            (status (proposals (pv w') pid) = status (proposals (pv w) pid) \<or>
             spec_transition (status (proposals (pv w) pid)) (status (proposals (pv w') pid))) \<and>
            (\<forall>t url a d n. c = CreateProposal t url a d n \<longrightarrow>
               status (proposals (pv w') (nextProposalId (pv w))) = Active) \<and>
            (c = EndProposalAndExecute pid \<longrightarrow>
               status (proposals (pv w) pid) = Active \<and>
               (status (proposals (pv w') pid) = Approved \<or>
                status (proposals (pv w') pid) = Rejected) \<and>
               (\<forall>cs e2. \<exists>err. endProposalAndExecute e2 pid (run cs w') = Inl err)) \<and>
            (c = ExecuteApprovedProposal pid \<longrightarrow>
               status (proposals (pv w) pid) = Approved \<and>
               status (proposals (pv w') pid) = Executed \<and>
               (\<forall>cs e2. \<exists>err. executeApprovedProposal e2 pid (run cs w') = Inl err)) \<and>
            (status (proposals (pv w') pid) \<noteq> status (proposals (pv w) pid) \<longrightarrow>
               c = EndProposalAndExecute pid \<or> c = ExecuteApprovedProposal pid) \<and>
            (status (proposals (pv w) pid) = Rejected \<or> status (proposals (pv w) pid) = Executed \<longrightarrow>
               (\<forall>cs. status (proposals (pv (run cs w)) pid) = status (proposals (pv w) pid)))) \<and>
         (\<forall>e. 0 < pid \<and> pid < nextProposalId (pv w) \<and>
              status (proposals (pv w) pid) = Active \<and>
              votingPeriodEnd (proposals (pv w) pid) \<le> block_timestamp e \<longrightarrow>
            (\<exists>evs w'. exec e (EndProposalAndExecute pid) w = Inr (evs, w') \<and>
               (status (proposals (pv w') pid) = Approved \<or>
                status (proposals (pv w') pid) = Rejected))) \<and>
         (\<forall>e revs r'. msg_sender e = owner (pv w) \<and> 0 < pid \<and> pid < nextProposalId (pv w) \<and>
              status (proposals (pv w) pid) = Approved \<and>
              registry_action e (proposals (pv w) pid) w = Inr (revs, r') \<longrightarrow>
            (\<exists>evs w'. exec e (ExecuteApprovedProposal pid) w = Inr (evs, w') \<and>
               status (proposals (pv w') pid) = Executed \<and> registry w' = r'))"
proof -
  have A: "(status (proposals (pv w') pid) = status (proposals (pv w) pid) \<or>
            spec_transition (status (proposals (pv w) pid)) (status (proposals (pv w') pid))) \<and>
           (\<forall>t url a d n. c = CreateProposal t url a d n \<longrightarrow>
              status (proposals (pv w') (nextProposalId (pv w))) = Active) \<and>
           (c = EndProposalAndExecute pid \<longrightarrow>
              status (proposals (pv w) pid) = Active \<and>
              (status (proposals (pv w') pid) = Approved \<or>
               status (proposals (pv w') pid) = Rejected) \<and>
              (\<forall>cs e2. \<exists>err. endProposalAndExecute e2 pid (run cs w') = Inl err)) \<and>
           (c = ExecuteApprovedProposal pid \<longrightarrow>
              status (proposals (pv w) pid) = Approved \<and>
              status (proposals (pv w') pid) = Executed \<and>
              (\<forall>cs e2. \<exists>err. executeApprovedProposal e2 pid (run cs w') = Inl err)) \<and>
           (status (proposals (pv w') pid) \<noteq> status (proposals (pv w) pid) \<longrightarrow>
              c = EndProposalAndExecute pid \<or> c = ExecuteApprovedProposal pid) \<and>
           (status (proposals (pv w) pid) = Rejected \<or> status (proposals (pv w) pid) = Executed \<longrightarrow>
              (\<forall>cs. status (proposals (pv (run cs w)) pid) = status (proposals (pv w) pid)))"
    if "exec e c w = Inr (evs, w')" for e c evs w'
    using assms that by (rule status_step)
  have B: "\<exists>evs w'. exec e (EndProposalAndExecute pid) w = Inr (evs, w') \<and>
               (status (proposals (pv w') pid) = Approved \<or>
                status (proposals (pv w') pid) = Rejected)"
    if "0 < pid \<and> pid < nextProposalId (pv w) \<and>
        status (proposals (pv w) pid) = Active \<and>
        votingPeriodEnd (proposals (pv w) pid) \<le> block_timestamp e" for e
  proof -
    from that endProposalAndExecute_succeeds [OF assms, of pid e]
    have x: "exec e (EndProposalAndExecute pid) w =
           Inr ([ProposalStatusUpdated pid Active (decided w pid)],
                set_proposal pid ((proposals (pv w) pid)\<lparr>status := decided w pid\<rparr>) w)"
      by simp
    have "decided w pid = Approved \<or> decided w pid = Rejected"
      by (simp add: spec_resolution_def)
    then have "status (proposals (pv (set_proposal pid
        ((proposals (pv w) pid)\<lparr>status := decided w pid\<rparr>) w)) pid) = Approved \<or>
      status (proposals (pv (set_proposal pid
        ((proposals (pv w) pid)\<lparr>status := decided w pid\<rparr>) w)) pid) = Rejected"
      by (simp add: set_proposal_def)
    with x show ?thesis by blast
  qed
  have C: "\<exists>evs w'. exec e (ExecuteApprovedProposal pid) w = Inr (evs, w') \<and>
               status (proposals (pv w') pid) = Executed \<and> registry w' = r'"
    if "msg_sender e = owner (pv w) \<and> 0 < pid \<and> pid < nextProposalId (pv w) \<and>
        status (proposals (pv w) pid) = Approved \<and>
        registry_action e (proposals (pv w) pid) w = Inr (revs, r')" for e revs r'
  proof -
    from that executeApprovedProposal_succeeds [of e w pid revs r']
    have x: "exec e (ExecuteApprovedProposal pid) w =
       Inr (revs @
            [ProposalExecuted pid (proposalType (proposals (pv w) pid))
               (urlValue (proposals (pv w) pid)) (addressValue (proposals (pv w) pid))
               (msg_sender e),
             ProposalStatusUpdated pid Approved Executed],
            set_proposal pid ((proposals (pv w) pid)\<lparr>status := Executed\<rparr>)
              (w\<lparr>registry := r'\<rparr>))"
      by simp
    have "status (proposals (pv (set_proposal pid ((proposals (pv w) pid)\<lparr>status := Executed\<rparr>)
              (w\<lparr>registry := r'\<rparr>))) pid) = Executed"
      "registry (set_proposal pid ((proposals (pv w) pid)\<lparr>status := Executed\<rparr>)
              (w\<lparr>registry := r'\<rparr>)) = r'"
      by (simp_all add: set_proposal_def)
    with x show ?thesis by blast
  qed
  from A B C show ?thesis by blast
qed

lemma example_world3_fields:
  "proposals (pv example_world3) = (\<lambda>_. zero_Proposal)(1 :=
     zero_Proposal\<lparr>proposal_id := 1, urlValue := example_url, description := ''phishing'',
        creationTimestamp := 1000, votingPeriodEnd := 8200, proposer := 2,
        yesVotes := 1, status := Approved, hasVoted := (\<lambda>_. False)(2 := True),
        totalVoters := 1\<rparr>)"
  "nextProposalId (pv example_world3) = 2"
  "owner (pv example_world3) = 1"
  "this_address (pv example_world3) = 9"
  "registry example_world3 = example_registry"
  by (simp_all add: example_world3_eq example_world2_fields set_proposal_def
        example_world2_eq example_world0_def zero_Proposal_def)

lemma example_end_result:
  "endProposalAndExecute \<lparr>msg_sender = 3, block_timestamp = 9000\<rparr> 1 example_world2 =
     Inr ([ProposalStatusUpdated 1 Active Approved], example_world3)"
  by (simp add: endProposalAndExecute_def proposalExists_def proposalReadyToResolve_def
        meetsApprovalCriteria_def checked_mul_def checked_div_def MAX_UINT256_def
        example_world2_fields example_world3_eq zero_Proposal_def Let_def)

lemma example_world3_reachable: "reachable example_world3"
  unfolding example_world3_def by (rule reachable_run [OF example_world0_reachable])

lemma example_registry_action:
  "registry_action \<lparr>msg_sender = 1, block_timestamp = 9100\<rparr> (proposals (pv example_world3) 1)
     example_world3 =
   Inr ([EntryAdded URL example_url 0 9100 2],
        example_registry\<lparr>blacklistedURLs := (\<lambda>_. zero_BlacklistEntry)(example_url :=
          \<lparr>entryType = URL, timestamp = 9100, entry_proposer = 2, exists_flag = True\<rparr>)\<rparr>)"
  by (simp add: registry_action_def addURL_def onlyProposalVotingContract_def
        example_world3_fields zero_Proposal_def example_registry_def example_url_def
        zero_BlacklistEntry_def)

lemma example_world4_eq:
  "example_world4 =
     set_proposal 1 ((proposals (pv example_world3) 1)\<lparr>status := Executed\<rparr>)
       (example_world3\<lparr>registry :=
          example_registry\<lparr>blacklistedURLs := (\<lambda>_. zero_BlacklistEntry)(example_url :=
            \<lparr>entryType = URL, timestamp = 9100, entry_proposer = 2, exists_flag = True\<rparr>)\<rparr>\<rparr>)"
proof -
  have "example_world4 = run [example_execute] example_world3"
    by (simp add: example_world4_def example_world3_def example_create_def example_vote_def
          example_end_def split: sum.splits prod.splits)
  also have "\<dots> = set_proposal 1 ((proposals (pv example_world3) 1)\<lparr>status := Executed\<rparr>)
       (example_world3\<lparr>registry :=
          example_registry\<lparr>blacklistedURLs := (\<lambda>_. zero_BlacklistEntry)(example_url :=
            \<lparr>entryType = URL, timestamp = 9100, entry_proposer = 2, exists_flag = True\<rparr>)\<rparr>\<rparr>)"
    using example_registry_action
    by (simp add: example_execute_def executeApprovedProposal_def onlyOwner_def
          proposalExists_def example_world3_fields zero_Proposal_def Let_def)
  finally show ?thesis .
qed

lemma example_execute_result:
  "executeApprovedProposal \<lparr>msg_sender = 1, block_timestamp = 9100\<rparr> 1 example_world3 =
     Inr ([EntryAdded URL example_url 0 9100 2, ProposalExecuted 1 AddURL example_url 0 1,
           ProposalStatusUpdated 1 Approved Executed], example_world4)"
  using example_registry_action
  by (simp add: executeApprovedProposal_def onlyOwner_def proposalExists_def
        example_world3_fields example_world4_eq zero_Proposal_def Let_def)

theorem proposal_status_state_machine_witness:
  "reachable example_world2 \<and>
   exec \<lparr>msg_sender = 3, block_timestamp = 9000\<rparr> (EndProposalAndExecute 1) example_world2 =
     Inr ([ProposalStatusUpdated 1 Active Approved], example_world3) \<and>
   status (proposals (pv example_world2) 1) = Active \<and>
   status (proposals (pv example_world3) 1) = Approved \<and>
   spec_transition Active Approved \<and>
   (\<exists>err. endProposalAndExecute \<lparr>msg_sender = 3, block_timestamp = 9500\<rparr> 1
            (run [] example_world3) = Inl err) \<and>
   reachable example_world3 \<and>
   (\<exists>evs w'. exec \<lparr>msg_sender = 1, block_timestamp = 9100\<rparr> (ExecuteApprovedProposal 1)
       example_world3 = Inr (evs, w') \<and>
      status (proposals (pv w') 1) = Executed \<and> isURLBlacklisted (registry w') example_url) \<and>
   exec \<lparr>msg_sender = 1, block_timestamp = 9100\<rparr> (ExecuteApprovedProposal 1) example_world3 =
     Inr ([EntryAdded URL example_url 0 9100 2, ProposalExecuted 1 AddURL example_url 0 1,
           ProposalStatusUpdated 1 Approved Executed], example_world4) \<and>
   status (proposals (pv example_world4) 1) = Executed \<and>
   spec_transition Approved Executed \<and>
   (\<exists>err. executeApprovedProposal \<lparr>msg_sender = 1, block_timestamp = 9200\<rparr> 1
            (run [] example_world4) = Inl err)"
proof -
  have x: "exec \<lparr>msg_sender = 3, block_timestamp = 9000\<rparr> (EndProposalAndExecute 1)
      example_world2 = Inr ([ProposalStatusUpdated 1 Active Approved], example_world3)"
    using example_end_result by simp
  have y: "exec \<lparr>msg_sender = 1, block_timestamp = 9100\<rparr> (ExecuteApprovedProposal 1)
      example_world3 =
     Inr ([EntryAdded URL example_url 0 9100 2, ProposalExecuted 1 AddURL example_url 0 1,
           ProposalStatusUpdated 1 Approved Executed], example_world4)"
    using example_execute_result by simp
  note t2 = proposal_status_state_machine [OF example_world2_reachable, of 1]
  note t3 = proposal_status_state_machine [OF example_world3_reachable, of 1]
  from t2 [THEN conjunct1, THEN spec, THEN spec, THEN spec, THEN spec, THEN mp, OF x]
  have 1: "spec_transition Active Approved"
    and a: "\<forall>cs e2. \<exists>err. endProposalAndExecute e2 1 (run cs example_world3) = Inl err"
    by (simp_all add: example_world2_fields example_world3_fields zero_Proposal_def)
  from a
  have 2: "\<exists>err. endProposalAndExecute \<lparr>msg_sender = 3, block_timestamp = 9500\<rparr> 1
            (run [] example_world3) = Inl err"
    by blast
  from t3 [THEN conjunct1, THEN spec, THEN spec, THEN spec, THEN spec, THEN mp, OF y]
  have b: "status (proposals (pv example_world3) 1) = Approved \<and>
       status (proposals (pv example_world4) 1) = Executed \<and>
       (\<forall>cs e2. \<exists>err. executeApprovedProposal e2 1 (run cs example_world4) = Inl err)"
    by simp
  then have 3: "status (proposals (pv example_world4) 1) = Executed"
    and 4: "\<exists>err. executeApprovedProposal \<lparr>msg_sender = 1, block_timestamp = 9200\<rparr> 1
            (run [] example_world4) = Inl err"
    by blast+
  have h: "msg_sender \<lparr>msg_sender = 1 :: address, block_timestamp = 9100\<rparr> =
             owner (pv example_world3) \<and>
           0 < (1 :: nat) \<and> 1 < nextProposalId (pv example_world3) \<and>
           status (proposals (pv example_world3) 1) = Approved \<and>
           registry_action \<lparr>msg_sender = 1, block_timestamp = 9100\<rparr>
             (proposals (pv example_world3) 1) example_world3 =
           Inr ([EntryAdded URL example_url 0 9100 2],
             example_registry\<lparr>blacklistedURLs := (\<lambda>_. zero_BlacklistEntry)(example_url :=
               \<lparr>entryType = URL, timestamp = 9100, entry_proposer = 2, exists_flag = True\<rparr>)\<rparr>)"
    using example_registry_action by (simp add: example_world3_fields zero_Proposal_def)
  from t3 [THEN conjunct2, THEN conjunct2, THEN spec, THEN spec, THEN spec, THEN mp, OF h]
  obtain evs w' where
    e: "exec \<lparr>msg_sender = 1, block_timestamp = 9100\<rparr> (ExecuteApprovedProposal 1)
          example_world3 = Inr (evs, w')"
    and s: "status (proposals (pv w') 1) = Executed"
    and r: "registry w' =
      example_registry\<lparr>blacklistedURLs := (\<lambda>_. zero_BlacklistEntry)(example_url :=
        \<lparr>entryType = URL, timestamp = 9100, entry_proposer = 2, exists_flag = True\<rparr>)\<rparr>"
    by blast
  from r have "isURLBlacklisted (registry w') example_url"
    by (simp add: isURLBlacklisted_def)
  with e s have 5: "\<exists>evs w'. exec \<lparr>msg_sender = 1, block_timestamp = 9100\<rparr>
       (ExecuteApprovedProposal 1) example_world3 = Inr (evs, w') \<and>
      status (proposals (pv w') 1) = Executed \<and> isURLBlacklisted (registry w') example_url"
    by blast
  have 6: "status (proposals (pv example_world2) 1) = Active"
    "status (proposals (pv example_world3) 1) = Approved"
    "spec_transition Approved Executed"
    by (simp_all add: example_world2_fields example_world3_fields zero_Proposal_def)
  show ?thesis
    by (intro conjI) (rule example_world2_reachable example_world3_reachable x y 1 2 3 4 5 6)+
qed

section \<open>Executing an approved proposal\<close>

lemma run_failed: "exec e c w = Inl err \<Longrightarrow> run [(e, c)] w = w"
  by simp

lemma registry_action_already_there:
  assumes "proposalType p = AddURL \<and> isURLBlacklisted (registry w) (urlValue p) \<or>
           proposalType p = AddAddress \<and> isAddressBlacklisted (registry w) (addressValue p) \<or>
           proposalType p = RemoveURL \<and> \<not> isURLBlacklisted (registry w) (urlValue p) \<or>
           proposalType p = RemoveAddress \<and> \<not> isAddressBlacklisted (registry w) (addressValue p)"
  shows "\<exists>err. registry_action e p w = Inl err"
  using assms
  by (auto simp: registry_action_def addURL_def addAddress_def removeURL_def
        removeAddress_def isURLBlacklisted_def isAddressBlacklisted_def
        onlyProposalVotingContract_def and_then_def require_def Let_def)

text \<open>
  C3. A call of \<open>executeApprovedProposal\<close> by anybody but the owner fails with
  \<open>Only owner can call this function\<close> and changes nothing. When the owner calls it on
  an existing \<open>Approved\<close> proposal and the call into the registry fails, the call
  fails with the registry's error, nothing changes, and the status is still
  \<open>Approved\<close>. The registry call does fail when an add finds its value already
  blacklisted and when a remove finds its value not blacklisted.
\<close>

theorem executeApprovedProposal_failure:
  "(msg_sender e \<noteq> owner (pv w) \<longrightarrow>
      executeApprovedProposal e pid w = Inl (Revert ''Only owner can call this function'') \<and>
      run [(e, ExecuteApprovedProposal pid)] w = w) \<and>
   (msg_sender e = owner (pv w) \<and> 0 < pid \<and> pid < nextProposalId (pv w) \<and>
    status (proposals (pv w) pid) = Approved \<and>
    registry_action e (proposals (pv w) pid) w = Inl err \<longrightarrow>
      executeApprovedProposal e pid w = Inl err \<and>
      run [(e, ExecuteApprovedProposal pid)] w = w \<and>
      status (proposals (pv (run [(e, ExecuteApprovedProposal pid)] w)) pid) = Approved) \<and>
   (proposalType (proposals (pv w) pid) = AddURL \<and>
      isURLBlacklisted (registry w) (urlValue (proposals (pv w) pid)) \<or>
    proposalType (proposals (pv w) pid) = AddAddress \<and>
      isAddressBlacklisted (registry w) (addressValue (proposals (pv w) pid)) \<or>
    proposalType (proposals (pv w) pid) = RemoveURL \<and>
      \<not> isURLBlacklisted (registry w) (urlValue (proposals (pv w) pid)) \<or>
    proposalType (proposals (pv w) pid) = RemoveAddress \<and>
      \<not> isAddressBlacklisted (registry w) (addressValue (proposals (pv w) pid)) \<longrightarrow>
      (\<exists>err'. registry_action e (proposals (pv w) pid) w = Inl err') \<and>
      (\<exists>err'. executeApprovedProposal e pid w = Inl err') \<and>
      run [(e, ExecuteApprovedProposal pid)] w = w)"
proof -
  have 1: "executeApprovedProposal e pid w = Inl (Revert ''Only owner can call this function'')"
    if "msg_sender e \<noteq> owner (pv w)"
    using that by (simp add: executeApprovedProposal_def onlyOwner_def)
  have 2: "executeApprovedProposal e pid w = Inl err"
    if "msg_sender e = owner (pv w)" "0 < pid" "pid < nextProposalId (pv w)"
      "status (proposals (pv w) pid) = Approved"
      "registry_action e (proposals (pv w) pid) w = Inl err"
    using that by (simp add: executeApprovedProposal_def onlyOwner_def proposalExists_def)
  have 3: "\<exists>err'. executeApprovedProposal e pid w = Inl err'"
    if "registry_action e (proposals (pv w) pid) w = Inl err'" for err'
    using that
    by (simp add: executeApprovedProposal_def onlyOwner_def proposalExists_def
          and_then_def require_def Let_def split: sum.splits)
  have 4: "run [(e, ExecuteApprovedProposal pid)] w = w"
    if "executeApprovedProposal e pid w = Inl err'" for err'
    using that by simp
  have A: "executeApprovedProposal e pid w = Inl (Revert ''Only owner can call this function'') \<and>
      run [(e, ExecuteApprovedProposal pid)] w = w"
    if "msg_sender e \<noteq> owner (pv w)"
    using 1 [OF that] 4 by blast
  have B: "executeApprovedProposal e pid w = Inl err \<and>
      run [(e, ExecuteApprovedProposal pid)] w = w \<and>
      status (proposals (pv (run [(e, ExecuteApprovedProposal pid)] w)) pid) = Approved"
    if "msg_sender e = owner (pv w) \<and> 0 < pid \<and> pid < nextProposalId (pv w) \<and>
        status (proposals (pv w) pid) = Approved \<and>
        registry_action e (proposals (pv w) pid) w = Inl err"
  proof -
    from that 2 have x: "executeApprovedProposal e pid w = Inl err" by blast
    from 4 [OF x] x that show ?thesis by (simp del: run.simps)
  qed
  have C: "(\<exists>err'. registry_action e (proposals (pv w) pid) w = Inl err') \<and>
      (\<exists>err'. executeApprovedProposal e pid w = Inl err') \<and>
      run [(e, ExecuteApprovedProposal pid)] w = w"
    if "proposalType (proposals (pv w) pid) = AddURL \<and>
          isURLBlacklisted (registry w) (urlValue (proposals (pv w) pid)) \<or>
        proposalType (proposals (pv w) pid) = AddAddress \<and>
          isAddressBlacklisted (registry w) (addressValue (proposals (pv w) pid)) \<or>
        proposalType (proposals (pv w) pid) = RemoveURL \<and>
          \<not> isURLBlacklisted (registry w) (urlValue (proposals (pv w) pid)) \<or>
        proposalType (proposals (pv w) pid) = RemoveAddress \<and>
          \<not> isAddressBlacklisted (registry w) (addressValue (proposals (pv w) pid))"
  proof -
    from registry_action_already_there [OF that, of e]
    obtain err' where r: "registry_action e (proposals (pv w) pid) w = Inl err'" by blast
    from 3 [OF r] obtain err'' where x: "executeApprovedProposal e pid w = Inl err''" by blast
    from r x 4 [OF x] show ?thesis by blast
  qed
  from A B C show ?thesis by blast
qed

theorem executeApprovedProposal_failure_witness:
  "executeApprovedProposal \<lparr>msg_sender = 2, block_timestamp = 9100\<rparr> 1 example_world3 =
     Inl (Revert ''Only owner can call this function'') \<and>
   run [(\<lparr>msg_sender = 2, block_timestamp = 9100\<rparr>, ExecuteApprovedProposal 1)] example_world3 =
     example_world3 \<and>
   status (proposals (pv example_world3_listed) 1) = Approved \<and>
   isURLBlacklisted (registry example_world3_listed) example_url \<and>
   executeApprovedProposal \<lparr>msg_sender = 1, block_timestamp = 9100\<rparr> 1 example_world3_listed =
     Inl (Revert ''URL is already blacklisted'') \<and>
   status (proposals (pv (run [(\<lparr>msg_sender = 1, block_timestamp = 9100\<rparr>,
       ExecuteApprovedProposal 1)] example_world3_listed)) 1) = Approved"
proof -
  have l: "proposals (pv example_world3_listed) = proposals (pv example_world3)"
    "nextProposalId (pv example_world3_listed) = 2"
    "owner (pv example_world3_listed) = 1"
    "this_address (pv example_world3_listed) = 9"
    by (simp_all add: example_world3_listed_def example_world3_fields)
  have b: "isURLBlacklisted (registry example_world3_listed) example_url"
    by (simp add: example_world3_listed_def example_registry_listed_def isURLBlacklisted_def)
  have r: "registry_action \<lparr>msg_sender = 1, block_timestamp = 9100\<rparr>
             (proposals (pv example_world3_listed) 1) example_world3_listed =
           Inl (Revert ''URL is already blacklisted'')"
    by (simp add: registry_action_def addURL_def onlyProposalVotingContract_def l
          example_world3_fields zero_Proposal_def example_world3_listed_def
          example_registry_listed_def example_registry_def example_url_def)
  have s: "status (proposals (pv example_world3_listed) 1) = Approved"
    by (simp add: l example_world3_fields zero_Proposal_def)
  from executeApprovedProposal_failure
    [of "\<lparr>msg_sender = 2, block_timestamp = 9100\<rparr>" example_world3 1]
  have 1: "executeApprovedProposal \<lparr>msg_sender = 2, block_timestamp = 9100\<rparr> 1 example_world3 =
     Inl (Revert ''Only owner can call this function'') \<and>
     run [(\<lparr>msg_sender = 2, block_timestamp = 9100\<rparr>, ExecuteApprovedProposal 1)]
       example_world3 = example_world3"
    by (simp add: example_world3_fields del: run.simps)
  from executeApprovedProposal_failure
    [of "\<lparr>msg_sender = 1, block_timestamp = 9100\<rparr>" example_world3_listed 1
        "Revert ''URL is already blacklisted''"] r s
  have 2: "executeApprovedProposal \<lparr>msg_sender = 1, block_timestamp = 9100\<rparr> 1
       example_world3_listed = Inl (Revert ''URL is already blacklisted'') \<and>
     status (proposals (pv (run [(\<lparr>msg_sender = 1, block_timestamp = 9100\<rparr>,
       ExecuteApprovedProposal 1)] example_world3_listed)) 1) = Approved"
    by (simp add: l del: run.simps)
  from 1 2 s b show ?thesis by (simp del: run.simps)
qed

section \<open>Voting\<close>

lemma exec_hasVoted:
  assumes "exec e c w = Inr (evs, w')" and "hasVoted (proposals (pv w) pid) a"
  shows "hasVoted (proposals (pv w') pid) a"
proof (cases c)
  case (CreateProposal t url ad d n)
  with assms(1) obtain q where q: "createProposal e t url ad d n w = Inr (q, evs, w')"
    by (auto simp: and_then_Inr_iff)
  show ?thesis using assms(2) by (subst createProposal_Inr(2) [OF q]) auto
next
  case (Vote q support)
  with assms(1) have "vote e q support w = Inr (evs, w')" by simp
  from vote_Inr(6) [OF this] assms(2) show ?thesis by (auto simp: set_proposal_def)
next
  case (EndProposalAndExecute q)
  with assms(1) have "endProposalAndExecute e q w = Inr (evs, w')" by simp
  from endProposalAndExecute_Inr(5) [OF this] assms(2) show ?thesis
    by (auto simp: set_proposal_def)
next
  case (ExecuteApprovedProposal q)
  with assms(1) have "executeApprovedProposal e q w = Inr (evs, w')" by simp
  from executeApprovedProposal_Inr(5) [OF this] assms(2) show ?thesis
    by (auto simp: set_proposal_def)
next
  case (UpdateVotingParameters p v m)
  with assms admin_Inr(1) [of e p v m w evs w'] show ?thesis by simp
next
  case (UpdateMinProposerTokenHoldings h)
  with assms admin_Inr(2) [of e h w evs w'] show ?thesis by simp
next
  case (TransferOwnership x)
  with assms admin_Inr(3) [of e x w evs w'] show ?thesis by simp
next
  case (Outside r b)
  with assms show ?thesis by auto
qed

lemma run_hasVoted:
  "hasVoted (proposals (pv w) pid) a \<Longrightarrow> hasVoted (proposals (pv (run cs w)) pid) a"
proof (induction cs arbitrary: w)
  case Nil
  then show ?case by simp
next
  case (Cons x cs)
  obtain e c where x: "x = (e, c)" by (cases x)
  show ?case
  proof (cases "exec e c w")
    case (Inl err)
    with Cons x show ?thesis by simp
  next
    case (Inr y)
    obtain evs w' where y: "y = (evs, w')" by (cases y)
    from exec_hasVoted [of e c w evs w' pid a] Inr y Cons.prems
    have "hasVoted (proposals (pv w') pid) a" by simp
    from Cons.IH [OF this] Inr x y show ?thesis by simp
  qed
qed

lemma vote_hasVoted:
  "hasVoted (proposals (pv w) pid) (msg_sender e) \<Longrightarrow> \<exists>err. vote e pid support w = Inl err"
  by (simp add: vote_def proposalExists_def proposalActive_def and_then_def require_def
        Let_def split: sum.splits)

text \<open>
  C5. A successful \<open>vote\<close> is the voter's first on the proposal: it marks the voter
  in \<open>hasVoted\<close>, adds one to \<open>totalVoters\<close> and one to exactly one of
  \<open>yesVotes\<close> and \<open>noVotes\<close>. Whatever transactions follow, the mark stays, and
  every further \<open>vote\<close> of the same voter on the same proposal fails and leaves the
  state as it is.
\<close>

theorem vote_once:
  assumes "vote e pid support w = Inr (evs, w')"
  shows "\<not> hasVoted (proposals (pv w) pid) (msg_sender e) \<and>
         hasVoted (proposals (pv w') pid) (msg_sender e) \<and>
         totalVoters (proposals (pv w') pid) = totalVoters (proposals (pv w) pid) + 1 \<and>
         yesVotes (proposals (pv w') pid) =
           yesVotes (proposals (pv w) pid) + (if support then 1 else 0) \<and>
         noVotes (proposals (pv w') pid) =
           noVotes (proposals (pv w) pid) + (if support then 0 else 1) \<and>
         (\<forall>cs e2 support2. msg_sender e2 = msg_sender e \<longrightarrow>
            hasVoted (proposals (pv (run cs w')) pid) (msg_sender e) \<and>
            (\<exists>err. vote e2 pid support2 (run cs w') = Inl err) \<and>
            run [(e2, Vote pid support2)] (run cs w') = run cs w')"
proof -
  note r = vote_Inr [OF assms]
  have h: "hasVoted (proposals (pv w') pid) (msg_sender e)"
    unfolding r(6) by (simp add: set_proposal_def)
  have t: "totalVoters (proposals (pv w') pid) = totalVoters (proposals (pv w) pid) + 1"
    and y: "yesVotes (proposals (pv w') pid) =
           yesVotes (proposals (pv w) pid) + (if support then 1 else 0)"
    and n: "noVotes (proposals (pv w') pid) =
           noVotes (proposals (pv w) pid) + (if support then 0 else 1)"
    unfolding r(6) by (simp_all add: set_proposal_def)
  have l: "hasVoted (proposals (pv (run cs w')) pid) (msg_sender e) \<and>
            (\<exists>err. vote e2 pid support2 (run cs w') = Inl err) \<and>
            run [(e2, Vote pid support2)] (run cs w') = run cs w'"
    if "msg_sender e2 = msg_sender e" for cs e2 support2
  proof -
    from run_hasVoted [OF h] have v: "hasVoted (proposals (pv (run cs w')) pid) (msg_sender e)" .
    with that vote_hasVoted [of "run cs w'" pid e2 support2]
    obtain err where "vote e2 pid support2 (run cs w') = Inl err" by auto
    with v show ?thesis by auto
  qed
  from r(5) h t y n l show ?thesis by blast
qed

lemma example_vote_result:
  "vote \<lparr>msg_sender = 2, block_timestamp = 2000\<rparr> 1 True example_world1 =
     Inr ([VoteCast 1 2 True 1 0], example_world2)"
  by (simp add: vote_def proposalExists_def proposalActive_def checked_add_def MAX_UINT256_def
        example_world1_eq example_world2_eq set_proposal_def zero_Proposal_def
        example_world0_def Let_def)

theorem vote_once_witness:
  "vote \<lparr>msg_sender = 2, block_timestamp = 2000\<rparr> 1 True example_world1 =
     Inr ([VoteCast 1 2 True 1 0], example_world2) \<and>
   hasVoted (proposals (pv example_world2) 1) 2 \<and>
   totalVoters (proposals (pv example_world2) 1) = 1 \<and>
   yesVotes (proposals (pv example_world2) 1) = 1 \<and>
   noVotes (proposals (pv example_world2) 1) = 0 \<and>
   (\<exists>err. vote \<lparr>msg_sender = 2, block_timestamp = 3000\<rparr> 1 False (run [] example_world2) =
      Inl err) \<and>
   vote \<lparr>msg_sender = 2, block_timestamp = 3000\<rparr> 1 False example_world2 =
     Inl (Revert ''Already voted on this proposal'')"
proof -
  note t = vote_once [OF example_vote_result]
  from t have a: "hasVoted (proposals (pv example_world2) 1) 2"
    and b: "totalVoters (proposals (pv example_world2) 1) =
            totalVoters (proposals (pv example_world1) 1) + 1"
    by simp_all
  from t have "\<forall>cs e2 support2. msg_sender e2 = (2 :: address) \<longrightarrow>
      (\<exists>err. vote e2 1 support2 (run cs example_world2) = Inl err)"
    by simp
  then have c: "\<exists>err. vote \<lparr>msg_sender = 2, block_timestamp = 3000\<rparr> 1 False
      (run [] example_world2) = Inl err"
    by (metis env.select_convs(1))
  have d: "vote \<lparr>msg_sender = 2, block_timestamp = 3000\<rparr> 1 False example_world2 =
     Inl (Revert ''Already voted on this proposal'')"
    by (simp add: vote_def proposalExists_def proposalActive_def example_world2_fields
          zero_Proposal_def Let_def)
  from a b c d example_vote_result show ?thesis
    by (simp add: example_world2_fields zero_Proposal_def)
qed

section \<open>Proposal identifiers\<close>

lemma exec_nextProposalId:
  assumes "exec e c w = Inr (evs, w')"
  shows "nextProposalId (pv w') =
           (case c of CreateProposal t url a d n \<Rightarrow> nextProposalId (pv w) + 1
            | _ \<Rightarrow> nextProposalId (pv w))"
proof (cases c)
  case (CreateProposal t url a d n)
  with assms obtain q where q: "createProposal e t url a d n w = Inr (q, evs, w')"
    by (auto simp: and_then_Inr_iff)
  show ?thesis
    unfolding CreateProposal by (subst createProposal_Inr(2) [OF q]) (simp add: createProposal_Inr(1) [OF q])
next
  case (Vote q support)
  with assms have "vote e q support w = Inr (evs, w')" by simp
  from vote_Inr(6) [OF this] Vote show ?thesis by (simp add: set_proposal_def)
next
  case (EndProposalAndExecute q)
  with assms have "endProposalAndExecute e q w = Inr (evs, w')" by simp
  from endProposalAndExecute_Inr(5) [OF this] EndProposalAndExecute show ?thesis
    by (auto simp: set_proposal_def)
next
  case (ExecuteApprovedProposal q)
  with assms have "executeApprovedProposal e q w = Inr (evs, w')" by simp
  from executeApprovedProposal_Inr(5) [OF this] ExecuteApprovedProposal show ?thesis
    by (auto simp: set_proposal_def)
next
  case (UpdateVotingParameters p v m)
  with assms admin_Inr(1) [of e p v m w evs w'] show ?thesis by simp
next
  case (UpdateMinProposerTokenHoldings h)
  with assms admin_Inr(2) [of e h w evs w'] show ?thesis by simp
next
  case (TransferOwnership x)
  with assms admin_Inr(3) [of e x w evs w'] show ?thesis by simp
next
  case (Outside r b)
  with assms show ?thesis by auto
qed

lemma created_ids_interval:
  "nextProposalId (pv w) \<le> nextProposalId (pv (run cs w)) \<and>
   created_ids cs w = [nextProposalId (pv w) ..< nextProposalId (pv (run cs w))]"
proof (induction cs arbitrary: w)
  case Nil
  show ?case by simp
next
  case (Cons x cs)
  obtain e c where x: "x = (e, c)" by (cases x)
  show ?case
  proof (cases "exec e c w")
    case (Inl err)
    then have "created_ids (x # cs) w = created_ids cs w"
      unfolding x by (cases c) (auto simp: and_then_def split: sum.splits)
    with Inl Cons.IH [of w] x show ?thesis by simp
  next
    case (Inr y)
    obtain evs w' where y: "y = (evs, w')" by (cases y)
    note n = exec_nextProposalId [OF Inr [unfolded y]]
    have r: "run (x # cs) w = run cs w'" using Inr x y by simp
    show ?thesis
    proof (cases "\<exists>t url a d n. c = CreateProposal t url a d n")
      case True
      then obtain t url a d n where c: "c = CreateProposal t url a d n" by blast
      with Inr y obtain q where q: "createProposal e t url a d n w = Inr (q, evs, w')"
        by (auto simp: and_then_Inr_iff)
      have i: "created_ids (x # cs) w = q # created_ids cs w'"
        using q by (simp add: x c)
      have q': "q = nextProposalId (pv w)" by (rule createProposal_Inr(1) [OF q])
      from n c have "nextProposalId (pv w') = nextProposalId (pv w) + 1" by simp
      with Cons.IH [of w'] show ?thesis
        unfolding r i q' by (simp add: upt_conv_Cons)
    next
      case False
      then have "created_ids (x # cs) w = created_ids cs w'"
        using Inr y unfolding x by (cases c) simp_all
      moreover from False n have "nextProposalId (pv w') = nextProposalId (pv w)"
        by (cases c) simp_all
      ultimately show ?thesis using Cons.IH [of w'] unfolding r by simp
    qed
  qed
qed

text \<open>
  C6. From the constructor on, through any run of transactions, the identifiers that the
  successful \<open>createProposal\<close> calls return are \<open>1, 2, \<dots>, n\<close> in this order
  (a failed creation returns none and uses none up), \<open>getTotalProposalCount\<close> returns
  \<open>n\<close>, the highest of them, and the next successful creation returns \<open>n + 1\<close>.
\<close>

theorem proposal_ids_sequential:
  assumes "constructor e self ra ta p v m h = Inr c"
  shows "created_ids cs \<lparr>pv = c, registry = r, balanceOf = b\<rparr> =
           [1 ..< Suc (length (created_ids cs \<lparr>pv = c, registry = r, balanceOf = b\<rparr>))] \<and>
         getTotalProposalCount (run cs \<lparr>pv = c, registry = r, balanceOf = b\<rparr>) =
           Inr (length (created_ids cs \<lparr>pv = c, registry = r, balanceOf = b\<rparr>)) \<and>
         (\<forall>e' t url a d n pid evs w'.
            createProposal e' t url a d n (run cs \<lparr>pv = c, registry = r, balanceOf = b\<rparr>) =
              Inr (pid, evs, w') \<longrightarrow>
            pid = length (created_ids cs \<lparr>pv = c, registry = r, balanceOf = b\<rparr>) + 1 \<and>
            getTotalProposalCount w' = Inr pid)"
proof -
  let ?w = "\<lparr>pv = c, registry = r, balanceOf = b\<rparr>"
  from assms have n0: "nextProposalId (pv ?w) = 1"
    by (auto simp: constructor_def and_then_Inr_iff)
  from created_ids_interval [of ?w cs]
  have le: "1 \<le> nextProposalId (pv (run cs ?w))"
    and ids: "created_ids cs ?w = [1 ..< nextProposalId (pv (run cs ?w))]"
    unfolding n0 by simp_all
  have len: "length (created_ids cs ?w) = nextProposalId (pv (run cs ?w)) - 1"
    unfolding ids by simp
  have 1: "created_ids cs ?w = [1 ..< Suc (length (created_ids cs ?w))]"
    using le ids len by simp
  have 2: "getTotalProposalCount (run cs ?w) = Inr (length (created_ids cs ?w))"
    using le len by (simp add: getTotalProposalCount_def checked_sub_def)
  have 3: "pid = length (created_ids cs ?w) + 1 \<and> getTotalProposalCount w' = Inr pid"
    if "createProposal e' t url a d n (run cs ?w) = Inr (pid, evs, w')"
    for e' t url a d n pid evs w'
  proof -
    note q = createProposal_Inr [OF that]
    have "nextProposalId (pv w') = pid + 1" by (subst q(2)) simp
    with q(1) le len show ?thesis
      by (simp add: getTotalProposalCount_def checked_sub_def)
  qed
  from 1 2 3 show ?thesis by blast
qed

theorem proposal_ids_sequential_witness:
  "constructor \<lparr>msg_sender = 1, block_timestamp = 0\<rparr> 9 7 8 7200 1 51 100 =
     Inr (pv example_world0) \<and>
   created_ids example_creations example_world0 = [1, 2] \<and>
   getTotalProposalCount (run example_creations example_world0) = Inr 2"
proof -
  have c: "constructor \<lparr>msg_sender = 1, block_timestamp = 0\<rparr> 9 7 8 7200 1 51 100 =
     Inr (pv example_world0)"
    by (simp add: constructor_def example_world0_def)
  have w: "\<lparr>pv = pv example_world0, registry = example_registry,
            balanceOf = (\<lambda>a. if a = 2 \<or> a = 3 then 100 else 0)\<rparr> = example_world0"
    by (simp add: example_world0_def)
  have i: "created_ids example_creations example_world0 = [1, 2]"
    by (simp add: example_creations_def example_create_def example_world0_def
          createProposal_def checked_add_def MAX_UINT256_def example_url_def)
  from proposal_ids_sequential [OF c, of example_creations example_registry
      "\<lambda>a. if a = 2 \<or> a = 3 then 100 else 0"]
  have "getTotalProposalCount (run example_creations example_world0) =
          Inr (length (created_ids example_creations example_world0))"
    unfolding w by simp
  with c i show ?thesis by simp
qed

section \<open>Votes and token balances\<close>

text \<open>
  C8. \<open>vote\<close> never reads the token: in two states that differ only in the token
  balances it fails with the same error or succeeds with the same events and the same new
  state (the balances apart); and a successful vote adds exactly one to \<open>totalVoters\<close>
  and to the chosen tally, whatever the voter holds.
\<close>

theorem vote_ignores_balances:
  "vote e pid support (w\<lparr>balanceOf := b\<rparr>) =
     (case vote e pid support w of
        Inl err \<Rightarrow> Inl err
      | Inr (evs, w') \<Rightarrow> Inr (evs, w'\<lparr>balanceOf := b\<rparr>)) \<and>
   (\<forall>evs w'. vote e pid support w = Inr (evs, w') \<longrightarrow>
      totalVoters (proposals (pv w') pid) = totalVoters (proposals (pv w) pid) + 1 \<and>
      yesVotes (proposals (pv w') pid) =
        yesVotes (proposals (pv w) pid) + (if support then 1 else 0) \<and>
      noVotes (proposals (pv w') pid) =
        noVotes (proposals (pv w) pid) + (if support then 0 else 1))"
proof -
  have 1: "vote e pid support (w\<lparr>balanceOf := b\<rparr>) =
     (case vote e pid support w of
        Inl err \<Rightarrow> Inl err
      | Inr (evs, w') \<Rightarrow> Inr (evs, w'\<lparr>balanceOf := b\<rparr>))"
    by (simp add: vote_def proposalExists_def proposalActive_def and_then_def require_def
          checked_add_def set_proposal_def Let_def)
  have 2: "totalVoters (proposals (pv w') pid) = totalVoters (proposals (pv w) pid) + 1 \<and>
      yesVotes (proposals (pv w') pid) =
        yesVotes (proposals (pv w) pid) + (if support then 1 else 0) \<and>
      noVotes (proposals (pv w') pid) =
        noVotes (proposals (pv w) pid) + (if support then 0 else 1)"
    if "vote e pid support w = Inr (evs, w')" for evs w'
    unfolding vote_Inr(6) [OF that] by (simp add: set_proposal_def)
  from 1 2 show ?thesis by blast
qed

theorem vote_ignores_balances_witness:
  "vote \<lparr>msg_sender = 2, block_timestamp = 2000\<rparr> 1 True (example_world1\<lparr>balanceOf := (\<lambda>_. 0)\<rparr>) =
     Inr ([VoteCast 1 2 True 1 0], example_world2\<lparr>balanceOf := (\<lambda>_. 0)\<rparr>) \<and>
   vote \<lparr>msg_sender = 2, block_timestamp = 2000\<rparr> 1 True example_world1 =
     Inr ([VoteCast 1 2 True 1 0], example_world2) \<and>
   totalVoters (proposals (pv example_world1) 1) = 0 \<and>
   totalVoters (proposals (pv example_world2) 1) = 1"
proof -
  note t = vote_ignores_balances
    [where e = "\<lparr>msg_sender = 2, block_timestamp = 2000\<rparr>" and pid = 1 and support = True
       and w = example_world1 and b = "\<lambda>_. 0"]
  from t example_vote_result
  have a: "vote \<lparr>msg_sender = 2, block_timestamp = 2000\<rparr> 1 True
       (example_world1\<lparr>balanceOf := (\<lambda>_. 0)\<rparr>) =
     Inr ([VoteCast 1 2 True 1 0], example_world2\<lparr>balanceOf := (\<lambda>_. 0)\<rparr>)"
    by simp
  from t example_vote_result
  have b: "totalVoters (proposals (pv example_world2) 1) =
           totalVoters (proposals (pv example_world1) 1) + 1"
    by simp
  have c: "totalVoters (proposals (pv example_world1) 1) = 0"
    by (simp add: example_world1_eq set_proposal_def zero_Proposal_def)
  from a b c example_vote_result show ?thesis by simp
qed

section \<open>Batch checks\<close>

lemma batchCheckURLs_loop_eq:
  assumes "i \<le> length urls" and "length results = length urls"
    and "length urls \<le> MAX_UINT256"
  shows "batchCheckURLs_loop r urls i results =
           Inr (take i results @ map (isURLBlacklisted r) (drop i urls))"
  using assms
proof (induction r urls i results rule: batchCheckURLs_loop.induct)
  case (1 r urls i results)
  show ?case
  proof (cases "i < length urls")
    case True
    with "1.prems" have c: "checked_add i 1 = Inr (i + 1)"
      by (simp add: checked_add_def)
    let ?res = "results[i := exists_flag (blacklistedURLs r (urls ! i))]"
    have "batchCheckURLs_loop r urls (i + 1) ?res =
            Inr (take (i + 1) ?res @ map (isURLBlacklisted r) (drop (i + 1) urls))"
      using "1.IH" [OF True c] True "1.prems" by simp
    moreover have "take (i + 1) ?res = take i results @ [isURLBlacklisted r (urls ! i)]"
      using True "1.prems"
      by (simp add: take_Suc_conv_app_nth isURLBlacklisted_def)
    moreover have "drop i urls = urls ! i # drop (i + 1) urls"
      using True by (simp add: Cons_nth_drop_Suc)
    ultimately show ?thesis
      using True c by (subst batchCheckURLs_loop.simps) simp
  next
    case False
    with "1.prems" show ?thesis by (subst batchCheckURLs_loop.simps) simp
  qed
qed

lemma batchCheckAddresses_loop_eq:
  assumes "i \<le> length addrs" and "length results = length addrs"
    and "length addrs \<le> MAX_UINT256"
  shows "batchCheckAddresses_loop r addrs i results =
           Inr (take i results @ map (isAddressBlacklisted r) (drop i addrs))"
  using assms
proof (induction r addrs i results rule: batchCheckAddresses_loop.induct)
  case (1 r addrs i results)
  show ?case
  proof (cases "i < length addrs")
    case True
    with "1.prems" have c: "checked_add i 1 = Inr (i + 1)"
      by (simp add: checked_add_def)
    let ?res = "results[i := exists_flag (blacklistedAddresses r (addrs ! i))]"
    have "batchCheckAddresses_loop r addrs (i + 1) ?res =
            Inr (take (i + 1) ?res @ map (isAddressBlacklisted r) (drop (i + 1) addrs))"
      using "1.IH" [OF True c] True "1.prems" by simp
    moreover have "take (i + 1) ?res = take i results @ [isAddressBlacklisted r (addrs ! i)]"
      using True "1.prems"
      by (simp add: take_Suc_conv_app_nth isAddressBlacklisted_def)
    moreover have "drop i addrs = addrs ! i # drop (i + 1) addrs"
      using True by (simp add: Cons_nth_drop_Suc)
    ultimately show ?thesis
      using True c by (subst batchCheckAddresses_loop.simps) simp
  next
    case False
    with "1.prems" show ?thesis by (subst batchCheckAddresses_loop.simps) simp
  qed
qed

text \<open>
  C9. For lists as long as a \<open>uint256\<close> can count, \<open>batchCheckURLs\<close> and
  \<open>batchCheckAddresses\<close> return, without an error, the list of the \<open>exists\<close>
  flags of the inputs: of the same length, in the same order, \<open>false\<close> for a key that
  is not blacklisted.
\<close>

theorem batchCheck_parallel:
  assumes "length urls \<le> MAX_UINT256" and "length addrs \<le> MAX_UINT256"
  shows "batchCheckURLs r urls = Inr (map (isURLBlacklisted r) urls) \<and>
         batchCheckAddresses r addrs = Inr (map (isAddressBlacklisted r) addrs) \<and>
         length (map (isURLBlacklisted r) urls) = length urls \<and>
         length (map (isAddressBlacklisted r) addrs) = length addrs \<and>
         (\<forall>i < length urls.
            map (isURLBlacklisted r) urls ! i = exists_flag (blacklistedURLs r (urls ! i))) \<and>
         (\<forall>i < length addrs.
            map (isAddressBlacklisted r) addrs ! i =
              exists_flag (blacklistedAddresses r (addrs ! i)))"
  using batchCheckURLs_loop_eq [of 0 urls "replicate (length urls) False" r]
    batchCheckAddresses_loop_eq [of 0 addrs "replicate (length addrs) False" r] assms
  by (simp add: batchCheckURLs_def batchCheckAddresses_def isURLBlacklisted_def
        isAddressBlacklisted_def)


theorem batchCheck_parallel_witness:
  "length [''http://a.example'', example_url, ''http://b.example''] \<le> MAX_UINT256 \<and>
   length [4, 5 :: address] \<le> MAX_UINT256 \<and>
   batchCheckURLs example_registry_listed [''http://a.example'', example_url, ''http://b.example''] =
     Inr [False, True, False] \<and>
   batchCheckAddresses example_registry_listed [4, 5] = Inr [True, False]"
proof -
  have l: "length [''http://a.example'', example_url, ''http://b.example''] \<le> MAX_UINT256"
    "length [4, 5 :: address] \<le> MAX_UINT256"
    by (simp_all add: MAX_UINT256_def)
  from batchCheck_parallel [OF l, of example_registry_listed] l show ?thesis
    by (simp add: isURLBlacklisted_def isAddressBlacklisted_def example_registry_listed_def
          example_registry_def example_url_def zero_BlacklistEntry_def)
qed

section \<open>The tallies\<close>

text \<open>
  C10. In every reachable state and for every proposal, \<open>totalVoters\<close> is the sum of
  \<open>yesVotes\<close> and \<open>noVotes\<close>; and the \<open>VoteCast\<close> event of a successful vote
  carries the two tallies of the new state, whose sum is the new \<open>totalVoters\<close>.
\<close>

theorem totalVoters_is_yes_plus_no:
  assumes "reachable w"
  shows "totalVoters (proposals (pv w) pid) =
           yesVotes (proposals (pv w) pid) + noVotes (proposals (pv w) pid) \<and>
         (\<forall>e support evs w'. vote e pid support w = Inr (evs, w') \<longrightarrow>
            evs = [VoteCast pid (msg_sender e) support (yesVotes (proposals (pv w') pid))
                     (noVotes (proposals (pv w') pid))] \<and>
            yesVotes (proposals (pv w') pid) + noVotes (proposals (pv w') pid) =
              totalVoters (proposals (pv w') pid))"
proof -
  have inv: "totalVoters (proposals (pv x) pid) =
           yesVotes (proposals (pv x) pid) + noVotes (proposals (pv x) pid)"
    if "reachable x" for x
    using reachable_tally_inv [OF that] by (simp add: tally_inv_def tally_ok_def)
  have ev: "evs = [VoteCast pid (msg_sender e) support (yesVotes (proposals (pv w') pid))
                     (noVotes (proposals (pv w') pid))] \<and>
            yesVotes (proposals (pv w') pid) + noVotes (proposals (pv w') pid) =
              totalVoters (proposals (pv w') pid)"
    if v: "vote e pid support w = Inr (evs, w')" for e support evs w'
  proof -
    from v have "exec e (Vote pid support) w = Inr (evs, w')" by simp
    with assms have "reachable w'" by (rule reach_step)
    from inv [OF this] vote_Inr(7) [OF v] show ?thesis
      unfolding vote_Inr(6) [OF v] by (simp add: set_proposal_def)
  qed
  from inv [OF assms] ev show ?thesis by blast
qed

lemma example_world1_reachable: "reachable example_world1"
  unfolding example_world1_def by (rule reachable_run [OF example_world0_reachable])

theorem totalVoters_is_yes_plus_no_witness:
  "reachable example_world1 \<and>
   totalVoters (proposals (pv example_world1) 1) = 0 \<and>
   vote \<lparr>msg_sender = 2, block_timestamp = 2000\<rparr> 1 True example_world1 =
     Inr ([VoteCast 1 2 True 1 0], example_world2) \<and>
   yesVotes (proposals (pv example_world2) 1) + noVotes (proposals (pv example_world2) 1) =
     totalVoters (proposals (pv example_world2) 1) \<and>
   totalVoters (proposals (pv example_world2) 1) = 1"
proof -
  note t = totalVoters_is_yes_plus_no [OF example_world1_reachable, of 1]
  from t example_vote_result
  have "yesVotes (proposals (pv example_world2) 1) + noVotes (proposals (pv example_world2) 1) =
     totalVoters (proposals (pv example_world2) 1)"
    by blast
  moreover have "totalVoters (proposals (pv example_world1) 1) = 0"
    by (simp add: example_world1_eq set_proposal_def zero_Proposal_def)
  ultimately show ?thesis
    using example_world1_reachable example_vote_result
    by (simp add: example_world2_fields zero_Proposal_def)
qed

section \<open>Replaying events into the mirror\<close>

lemma findOneAndUpdate_twice:
  assumes k: "\<And>d. matches d \<Longrightarrow> matches (u1 d)"
    and u: "\<And>d. u2 (u1 d) = u2 d"
    and i: "case i1 of None \<Rightarrow> i2 = None
            | Some d1 \<Rightarrow> matches d1 \<and> i2 = Some (u2 d1)"
  shows "findOneAndUpdate matches u2 i2 (findOneAndUpdate matches u1 i1 ds) =
         findOneAndUpdate matches u2 i2 ds"
proof (induction ds)
  case Nil
  from i show ?case by (cases i1) simp_all
next
  case (Cons d ds)
  then show ?case by (simp add: k u)
qed

lemma toDate_valid: "valid_timestamp ts \<Longrightarrow> toDate ts now = toDate ts now'"
  by (cases ts) (simp_all add: valid_timestamp_def toDate_def)

lemma js_plus_exact: "a + b < 2 ^ 53 \<Longrightarrow> js_plus (js_Number a) (js_Number b) = a + b"
  by (simp add: js_plus_def js_Number_def round_double_def)

lemma on_EntryAdded_twice:
  "on_EntryAdded env2 t v a ts p (on_EntryAdded env1 t v a ts p m) = on_EntryAdded env2 t v a ts p m"
  by (simp add: on_EntryAdded_def Let_def findOneAndUpdate_twice)

lemma on_EntryRemoved_twice:
  "on_EntryRemoved env2 t v a ts p (on_EntryRemoved env1 t v a ts p m) =
   on_EntryRemoved env2 t v a ts p m"
  by (simp add: on_EntryRemoved_def Let_def findOneAndUpdate_twice)

lemma on_ProposalCreated_twice:
  "on_ProposalCreated env2 i t u a d p c v (on_ProposalCreated env1 i t u a d p c v m) =
   on_ProposalCreated env2 i t u a d p c v m"
proof (cases "js_index proposalTypeMap (js_Number t)")
  case None
  then show ?thesis
    by (simp add: on_ProposalCreated_def Let_def findOneAndUpdate_twice)
next
  case (Some name)
  then show ?thesis
    by (simp add: on_ProposalCreated_def Let_def findOneAndUpdate_twice)
qed

lemma on_VoteCast_rejected:
  "voteTimestamp env b = None \<Longrightarrow> on_VoteCast env i voter s y n b m = m"
  by (simp add: on_VoteCast_def)

lemma on_VoteCast_twice:
  assumes "voteTimestamp env2 b \<noteq> None"
  shows "on_VoteCast env2 i voter s y n b (on_VoteCast env1 i voter s y n b m) =
         on_VoteCast env2 i voter s y n b m"
proof -
  from assms obtain t2 where t2: "voteTimestamp env2 b = Some t2" by blast
  show ?thesis
  proof (cases "voteTimestamp env1 b")
    case None
    then show ?thesis by (simp add: on_VoteCast_rejected)
  next
    case (Some t1)
    with t2 show ?thesis
      by (simp add: on_VoteCast_def Let_def findOneAndUpdate_twice)
  qed
qed

lemma on_ProposalStatusUpdated_twice:
  "on_ProposalStatusUpdated i old new (on_ProposalStatusUpdated i old new m) =
   on_ProposalStatusUpdated i old new m"
proof (cases "js_index statusMap (js_Number new)")
  case None
  then show ?thesis
    by (simp add: on_ProposalStatusUpdated_def Let_def findOneAndUpdate_twice)
next
  case (Some name)
  then show ?thesis
    by (simp add: on_ProposalStatusUpdated_def Let_def findOneAndUpdate_twice)
qed

lemma on_EntryAdded_clock:
  "toDate ts (clock env2) = toDate ts (clock env1) \<Longrightarrow>
     on_EntryAdded env2 t v a ts p m = on_EntryAdded env1 t v a ts p m"
  by (simp add: on_EntryAdded_def)

lemma on_EntryRemoved_clock:
  "toDate ts (clock env2) = toDate ts (clock env1) \<Longrightarrow>
     on_EntryRemoved env2 t v a ts p m = on_EntryRemoved env1 t v a ts p m"
  by (simp add: on_EntryRemoved_def)

lemma on_ProposalCreated_clock:
  "toDate c (clock env2) = toDate c (clock env1) \<Longrightarrow>
   toDate v (clock env2) = toDate v (clock env1) \<Longrightarrow>
     on_ProposalCreated env2 i t u a d p c v m = on_ProposalCreated env1 i t u a d p c v m"
  by (simp add: on_ProposalCreated_def)

lemma on_VoteCast_clock:
  "voteTimestamp env2 b = voteTimestamp env1 b \<Longrightarrow>
     on_VoteCast env2 i voter s y n b m = on_VoteCast env1 i voter s y n b m"
  by (simp add: on_VoteCast_def)

text \<open>
  C7, as the code has it. Applying a handler twice in succession with the same event leaves
  the mirror in the state that the second application alone produces: the upsert finds the
  document of the first application and writes the same fields again, and adds no document.
  For \<open>VoteCast\<close> this holds when the block lookup of the second application is not
  rejected; when it is rejected, the second application writes nothing and the mirror stays
  as the first one left it. The state after two applications is the state after the first
  one for \<open>ProposalStatusUpdated\<close>; for \<open>EntryAdded\<close>, \<open>EntryRemoved\<close> and
  \<open>ProposalCreated\<close> when the timestamps of the event are valid dates; and for
  \<open>VoteCast\<close> when both applications find the same timestamp for the vote. Where a
  handler falls back to the current date, the second application stores its own.
\<close>

theorem handlers_replay:
  "on_EntryAdded env2 t v a ts p (on_EntryAdded env1 t v a ts p m) =
     on_EntryAdded env2 t v a ts p m \<and>
   on_EntryRemoved env2 t v a ts p (on_EntryRemoved env1 t v a ts p m) =
     on_EntryRemoved env2 t v a ts p m \<and>
   on_ProposalCreated env2 i t u a d p c e (on_ProposalCreated env1 i t u a d p c e m) =
     on_ProposalCreated env2 i t u a d p c e m \<and>
   (voteTimestamp env2 b \<noteq> None \<longrightarrow>
      on_VoteCast env2 i voter s y n b (on_VoteCast env1 i voter s y n b m) =
        on_VoteCast env2 i voter s y n b m) \<and>
   (voteTimestamp env2 b = None \<longrightarrow>
      on_VoteCast env2 i voter s y n b (on_VoteCast env1 i voter s y n b m) =
        on_VoteCast env1 i voter s y n b m) \<and>
   on_ProposalStatusUpdated i old new (on_ProposalStatusUpdated i old new m) =
     on_ProposalStatusUpdated i old new m \<and>
   (valid_timestamp ts \<longrightarrow>
      on_EntryAdded env2 t v a ts p (on_EntryAdded env1 t v a ts p m) =
        on_EntryAdded env1 t v a ts p m \<and>
      on_EntryRemoved env2 t v a ts p (on_EntryRemoved env1 t v a ts p m) =
        on_EntryRemoved env1 t v a ts p m) \<and>
   (valid_timestamp c \<and> valid_timestamp e \<longrightarrow>
      on_ProposalCreated env2 i t u a d p c e (on_ProposalCreated env1 i t u a d p c e m) =
        on_ProposalCreated env1 i t u a d p c e m) \<and>
   (voteTimestamp env2 b = voteTimestamp env1 b \<longrightarrow>
      on_VoteCast env2 i voter s y n b (on_VoteCast env1 i voter s y n b m) =
        on_VoteCast env1 i voter s y n b m)"
proof -
  have 1: "on_EntryAdded env2 t v a ts p (on_EntryAdded env1 t v a ts p m) =
        on_EntryAdded env1 t v a ts p m" if "valid_timestamp ts"
  proof -
    from toDate_valid [OF that]
    have d: "toDate ts (clock env2) = toDate ts (clock env1)" .
    have "on_EntryAdded env2 t v a ts p (on_EntryAdded env1 t v a ts p m) =
          on_EntryAdded env2 t v a ts p m"
      by (rule on_EntryAdded_twice)
    also have "\<dots> = on_EntryAdded env1 t v a ts p m"
      by (rule on_EntryAdded_clock [OF d])
    finally show ?thesis .
  qed
  have 2: "on_EntryRemoved env2 t v a ts p (on_EntryRemoved env1 t v a ts p m) =
        on_EntryRemoved env1 t v a ts p m" if "valid_timestamp ts"
  proof -
    from toDate_valid [OF that]
    have d: "toDate ts (clock env2) = toDate ts (clock env1)" .
    have "on_EntryRemoved env2 t v a ts p (on_EntryRemoved env1 t v a ts p m) =
          on_EntryRemoved env2 t v a ts p m"
      by (rule on_EntryRemoved_twice)
    also have "\<dots> = on_EntryRemoved env1 t v a ts p m"
      by (rule on_EntryRemoved_clock [OF d])
    finally show ?thesis .
  qed
  have 3: "on_ProposalCreated env2 i t u a d p c e (on_ProposalCreated env1 i t u a d p c e m) =
        on_ProposalCreated env1 i t u a d p c e m"
    if "valid_timestamp c \<and> valid_timestamp e"
  proof -
    from that toDate_valid
    have d: "toDate c (clock env2) = toDate c (clock env1)"
      "toDate e (clock env2) = toDate e (clock env1)"
      by blast+
    have "on_ProposalCreated env2 i t u a d p c e (on_ProposalCreated env1 i t u a d p c e m) =
          on_ProposalCreated env2 i t u a d p c e m"
      by (rule on_ProposalCreated_twice)
    also have "\<dots> = on_ProposalCreated env1 i t u a d p c e m"
      by (rule on_ProposalCreated_clock [OF d])
    finally show ?thesis .
  qed
  have 4: "on_VoteCast env2 i voter s y n b (on_VoteCast env1 i voter s y n b m) =
        on_VoteCast env1 i voter s y n b m"
    if "voteTimestamp env2 b = None"
    using that by (rule on_VoteCast_rejected)
  have 5: "on_VoteCast env2 i voter s y n b (on_VoteCast env1 i voter s y n b m) =
        on_VoteCast env1 i voter s y n b m"
    if q: "voteTimestamp env2 b = voteTimestamp env1 b"
  proof (cases "voteTimestamp env2 b")
    case None
    then show ?thesis by (rule 4)
  next
    case (Some t2)
    then have "on_VoteCast env2 i voter s y n b (on_VoteCast env1 i voter s y n b m) =
          on_VoteCast env2 i voter s y n b m"
      by (intro on_VoteCast_twice) simp
    also have "\<dots> = on_VoteCast env1 i voter s y n b m"
      by (rule on_VoteCast_clock [OF q])
    finally show ?thesis .
  qed
  show ?thesis
    by (intro conjI impI on_EntryAdded_twice on_EntryRemoved_twice on_ProposalCreated_twice
          on_VoteCast_twice on_ProposalStatusUpdated_twice 1 2 3 4 5) simp_all
qed

lemma example_mirror_eq:
  "example_mirror =
     \<lparr>blacklistEntries = [],
      proposalDocs =
        [\<lparr>pd_proposalId = 1, pd_proposalType = Some ''AddURL'',
          pd_urlValue = ''http://phish.example'', pd_addressValue = ''0x00'',
          pd_description = ''phishing'', pd_creationTimestamp = 1000000,
          pd_votingPeriodEnd = 8200000, pd_proposer = ''0xB2'', pd_yesVotes = 0,
          pd_noVotes = 0, pd_totalVoters = 0, pd_status = ''Active''\<rparr>],
      voteDocs = []\<rparr>"
  by (simp add: example_mirror_def on_ProposalCreated_def empty_mirror_def js_Number_def
        round_double_def js_index_def proposalTypeMap_def toDate_def Let_def)

theorem handlers_replay_witness:
  "valid_timestamp (Some 1699999990) \<and>
   on_EntryAdded example_env2 0 ''http://phish.example'' ''0x00'' (Some 1699999990) ''0xB2''
     (on_EntryAdded example_env1 0 ''http://phish.example'' ''0x00'' (Some 1699999990) ''0xB2''
        empty_mirror) =
   on_EntryAdded example_env1 0 ''http://phish.example'' ''0x00'' (Some 1699999990) ''0xB2''
     empty_mirror \<and>
   blacklistEntries
     (on_EntryAdded example_env1 0 ''http://phish.example'' ''0x00'' (Some 1699999990) ''0xB2''
        empty_mirror) =
     [\<lparr>bl_type = ''URL'', bl_value = ''http://phish.example'', bl_proposer = ''0xB2'',
       bl_timestamp = 1699999990000, bl_isActive = True\<rparr>] \<and>
   voteTimestamp example_env4 (Some 5) = voteTimestamp example_env3 (Some 5) \<and>
   on_VoteCast example_env4 1 ''0xA1'' True 1 1 (Some 5)
     (on_VoteCast example_env3 1 ''0xA1'' True 1 1 (Some 5) example_mirror) =
   on_VoteCast example_env3 1 ''0xA1'' True 1 1 (Some 5) example_mirror \<and>
   voteTimestamp example_env5 (Some 5) = None \<and>
   on_VoteCast example_env5 1 ''0xA1'' True 1 1 (Some 5)
     (on_VoteCast example_env3 1 ''0xA1'' True 1 1 (Some 5) example_mirror) =
   on_VoteCast example_env3 1 ''0xA1'' True 1 1 (Some 5) example_mirror \<and>
   voteDocs (on_VoteCast example_env3 1 ''0xA1'' True 1 1 (Some 5) example_mirror) =
     [\<lparr>vd_proposalId = 1, vd_voter = ''0xA1'', vd_support = True,
       vd_timestamp = 1699999990000\<rparr>] \<and>
   proposalDocs (on_VoteCast example_env3 1 ''0xA1'' True 1 1 (Some 5) example_mirror) =
     [\<lparr>pd_proposalId = 1, pd_proposalType = Some ''AddURL'',
       pd_urlValue = ''http://phish.example'', pd_addressValue = ''0x00'',
       pd_description = ''phishing'', pd_creationTimestamp = 1000000,
       pd_votingPeriodEnd = 8200000, pd_proposer = ''0xB2'', pd_yesVotes = 1,
       pd_noVotes = 1, pd_totalVoters = 2, pd_status = ''Active''\<rparr>]"
proof -
  have v: "valid_timestamp (Some 1699999990)"
    by (simp add: valid_timestamp_def)
  have b: "voteTimestamp example_env4 (Some 5) = voteTimestamp example_env3 (Some 5)"
    by (simp add: voteTimestamp_def example_env3_def example_env4_def toDate_def)
  have r: "voteTimestamp example_env5 (Some 5) = None"
    by (simp add: voteTimestamp_def example_env5_def)
  note t = handlers_replay [where ts = "Some 1699999990" and ?env1.0 = example_env1
      and ?env2.0 = example_env2 and t = 0 and v = "''http://phish.example''" and a = "''0x00''"
      and p = "''0xB2''" and m = empty_mirror]
  have 1:
    "on_EntryAdded example_env2 0 ''http://phish.example'' ''0x00'' (Some 1699999990) ''0xB2''
     (on_EntryAdded example_env1 0 ''http://phish.example'' ''0x00'' (Some 1699999990) ''0xB2''
        empty_mirror) =
     on_EntryAdded example_env1 0 ''http://phish.example'' ''0x00'' (Some 1699999990) ''0xB2''
       empty_mirror"
    by (rule t [THEN conjunct2, THEN conjunct2, THEN conjunct2, THEN conjunct2, THEN conjunct2,
          THEN conjunct2, THEN conjunct1, THEN mp, OF v, THEN conjunct1])
  note t' = handlers_replay [where b = "Some 5" and ?env1.0 = example_env3
      and ?env2.0 = example_env4 and i = 1 and voter = "''0xA1''" and s = True and y = 1
      and n = 1 and m = example_mirror]
  have 2:
    "on_VoteCast example_env4 1 ''0xA1'' True 1 1 (Some 5)
       (on_VoteCast example_env3 1 ''0xA1'' True 1 1 (Some 5) example_mirror) =
     on_VoteCast example_env3 1 ''0xA1'' True 1 1 (Some 5) example_mirror"
    by (rule t' [THEN conjunct2, THEN conjunct2, THEN conjunct2, THEN conjunct2, THEN conjunct2,
          THEN conjunct2, THEN conjunct2, THEN conjunct2, THEN mp, OF b])
  note t'' = handlers_replay [where b = "Some 5" and ?env1.0 = example_env3
      and ?env2.0 = example_env5 and i = 1 and voter = "''0xA1''" and s = True and y = 1
      and n = 1 and m = example_mirror]
  have 3:
    "on_VoteCast example_env5 1 ''0xA1'' True 1 1 (Some 5)
       (on_VoteCast example_env3 1 ''0xA1'' True 1 1 (Some 5) example_mirror) =
     on_VoteCast example_env3 1 ''0xA1'' True 1 1 (Some 5) example_mirror"
    by (rule t'' [THEN conjunct2, THEN conjunct2, THEN conjunct2, THEN conjunct2,
          THEN conjunct1, THEN mp, OF r])
  have 4: "blacklistEntries
     (on_EntryAdded example_env1 0 ''http://phish.example'' ''0x00'' (Some 1699999990) ''0xB2''
        empty_mirror) =
     [\<lparr>bl_type = ''URL'', bl_value = ''http://phish.example'', bl_proposer = ''0xB2'',
       bl_timestamp = 1699999990000, bl_isActive = True\<rparr>]"
    by (simp add: on_EntryAdded_def empty_mirror_def js_Number_def round_double_def toDate_def)
  have w: "voteTimestamp example_env3 (Some 5) = Some 1699999990000"
    by (simp add: voteTimestamp_def example_env3_def toDate_def)
  have 5: "voteDocs (on_VoteCast example_env3 1 ''0xA1'' True 1 1 (Some 5) example_mirror) =
     [\<lparr>vd_proposalId = 1, vd_voter = ''0xA1'', vd_support = True,
       vd_timestamp = 1699999990000\<rparr>]"
    by (simp add: on_VoteCast_def w example_mirror_eq js_Number_def round_double_def Let_def)
  have 6: "proposalDocs (on_VoteCast example_env3 1 ''0xA1'' True 1 1 (Some 5) example_mirror) =
     [\<lparr>pd_proposalId = 1, pd_proposalType = Some ''AddURL'',
       pd_urlValue = ''http://phish.example'', pd_addressValue = ''0x00'',
       pd_description = ''phishing'', pd_creationTimestamp = 1000000,
       pd_votingPeriodEnd = 8200000, pd_proposer = ''0xB2'', pd_yesVotes = 1,
       pd_noVotes = 1, pd_totalVoters = 2, pd_status = ''Active''\<rparr>]"
    by (simp add: on_VoteCast_def w example_mirror_eq js_Number_def js_plus_def
          round_double_def Let_def)
  show ?thesis by (intro conjI) (rule v b r 1 2 3 4 5 6)+
qed

text \<open>
  The fallback at work: the provider has no block for the event (it answers \<open>null\<close>),
  so each application of the \<open>VoteCast\<close> handler stores the current date, and the
  second application, five seconds later, changes the timestamp of the vote that the first
  one stored.
\<close>

theorem on_VoteCast_not_idempotent:
  "on_VoteCast example_env2 1 ''0xA1'' True 1 0 (Some 5)
     (on_VoteCast example_env1 1 ''0xA1'' True 1 0 (Some 5) empty_mirror) \<noteq>
   on_VoteCast example_env1 1 ''0xA1'' True 1 0 (Some 5) empty_mirror \<and>
   voteDocs (on_VoteCast example_env1 1 ''0xA1'' True 1 0 (Some 5) empty_mirror) =
     [\<lparr>vd_proposalId = 1, vd_voter = ''0xA1'', vd_support = True,
       vd_timestamp = 1700000000000\<rparr>] \<and>
   voteDocs (on_VoteCast example_env2 1 ''0xA1'' True 1 0 (Some 5)
     (on_VoteCast example_env1 1 ''0xA1'' True 1 0 (Some 5) empty_mirror)) =
     [\<lparr>vd_proposalId = 1, vd_voter = ''0xA1'', vd_support = True,
       vd_timestamp = 1700000005000\<rparr>]"
  by (simp add: on_VoteCast_def voteTimestamp_def example_env1_def example_env2_def
        empty_mirror_def js_Number_def round_double_def Let_def)

end
